theory Spec2Isabelle
  imports Complex_Main "HOL-Library.Word"
begin

section \<open>JavaScript numbers\<close>

text \<open>
  The scoring pipeline (the enhanced grading module) computes on JavaScript numbers.
  A number is modelled as a real value or one of the three special values of IEEE 754:
  the two infinities and NaN. The two zeros are not told apart (the only divisions by
  zero of the modelled code have the numerator 0, where the sign of the zero plays no
  role). The operations of this section are exact on finite values. The next section
  adds the rounding to 64-bit doubles, which the model of the grading engine and of
  the cosine similarity applies to the result of every operation; the statistical
  metric, the style classifier and the structural similarity of two images are
  modelled with the exact operations.
\<close>

datatype jsnum = Fin real | PInf | NInf | NaN

instantiation jsnum :: "{zero, one, plus, minus, uminus, times, inverse, ord}"
begin

definition zero_jsnum :: jsnum where
  "zero_jsnum = Fin 0"

definition one_jsnum :: jsnum where
  "one_jsnum = Fin 1"

fun plus_jsnum :: "jsnum \<Rightarrow> jsnum \<Rightarrow> jsnum" where
  "plus_jsnum (Fin x) (Fin y) = Fin (x + y)"
| "plus_jsnum NaN _ = NaN"
| "plus_jsnum _ NaN = NaN"
| "plus_jsnum PInf NInf = NaN"
| "plus_jsnum NInf PInf = NaN"
| "plus_jsnum PInf _ = PInf"
| "plus_jsnum _ PInf = PInf"
| "plus_jsnum NInf _ = NInf"
| "plus_jsnum _ NInf = NInf"

fun uminus_jsnum :: "jsnum \<Rightarrow> jsnum" where
  "uminus_jsnum (Fin x) = Fin (- x)"
| "uminus_jsnum PInf = NInf"
| "uminus_jsnum NInf = PInf"
| "uminus_jsnum NaN = NaN"

definition minus_jsnum :: "jsnum \<Rightarrow> jsnum \<Rightarrow> jsnum" where
  "minus_jsnum a b = a + (- b)"

fun times_jsnum :: "jsnum \<Rightarrow> jsnum \<Rightarrow> jsnum" where
  "times_jsnum (Fin x) (Fin y) = Fin (x * y)"
| "times_jsnum NaN _ = NaN"
| "times_jsnum _ NaN = NaN"
| "times_jsnum PInf (Fin y) = (if y = 0 then NaN else if 0 < y then PInf else NInf)"
| "times_jsnum NInf (Fin y) = (if y = 0 then NaN else if 0 < y then NInf else PInf)"
| "times_jsnum (Fin x) PInf = (if x = 0 then NaN else if 0 < x then PInf else NInf)"
| "times_jsnum (Fin x) NInf = (if x = 0 then NaN else if 0 < x then NInf else PInf)"
| "times_jsnum PInf PInf = PInf"
| "times_jsnum NInf NInf = PInf"
| "times_jsnum PInf NInf = NInf"
| "times_jsnum NInf PInf = NInf"

fun divide_jsnum :: "jsnum \<Rightarrow> jsnum \<Rightarrow> jsnum" where
  "divide_jsnum (Fin x) (Fin y) =
     (if y = 0 then (if x = 0 then NaN else if 0 < x then PInf else NInf)
      else Fin (x / y))"
| "divide_jsnum NaN _ = NaN"
| "divide_jsnum _ NaN = NaN"
| "divide_jsnum (Fin x) PInf = Fin 0"
| "divide_jsnum (Fin x) NInf = Fin 0"
| "divide_jsnum PInf (Fin y) = (if 0 \<le> y then PInf else NInf)"
| "divide_jsnum NInf (Fin y) = (if 0 \<le> y then NInf else PInf)"
| "divide_jsnum PInf PInf = NaN"
| "divide_jsnum PInf NInf = NaN"
| "divide_jsnum NInf PInf = NaN"
| "divide_jsnum NInf NInf = NaN"

definition inverse_jsnum :: "jsnum \<Rightarrow> jsnum" where
  "inverse_jsnum a = divide (Fin 1) a"

text \<open>The comparisons \<^verbatim>\<open><\<close> and \<^verbatim>\<open><=\<close>: false as soon as one side is NaN.\<close>

fun less_jsnum :: "jsnum \<Rightarrow> jsnum \<Rightarrow> bool" where
  "less_jsnum (Fin x) (Fin y) = (x < y)"
| "less_jsnum NaN _ = False"
| "less_jsnum _ NaN = False"
| "less_jsnum NInf NInf = False"
| "less_jsnum NInf _ = True"
| "less_jsnum PInf _ = False"
| "less_jsnum (Fin x) PInf = True"
| "less_jsnum (Fin x) NInf = False"

fun less_eq_jsnum :: "jsnum \<Rightarrow> jsnum \<Rightarrow> bool" where
  "less_eq_jsnum (Fin x) (Fin y) = (x \<le> y)"
| "less_eq_jsnum NaN _ = False"
| "less_eq_jsnum _ NaN = False"
| "less_eq_jsnum NInf _ = True"
| "less_eq_jsnum PInf PInf = True"
| "less_eq_jsnum PInf _ = False"
| "less_eq_jsnum (Fin x) PInf = True"
| "less_eq_jsnum (Fin x) NInf = False"

instance ..

end

text \<open>Strict equality \<^verbatim>\<open>===\<close> on numbers: NaN is not equal to itself.\<close>

definition js_eq :: "jsnum \<Rightarrow> jsnum \<Rightarrow> bool" where
  "js_eq a b = (a \<noteq> NaN \<and> a = b)"

fun isFinite :: "jsnum \<Rightarrow> bool" where
  "isFinite (Fin x) = True"
| "isFinite _ = False"

text \<open>\<^verbatim>\<open>Math.abs\<close>, \<^verbatim>\<open>Math.sqrt\<close>, \<^verbatim>\<open>Math.max\<close>, \<^verbatim>\<open>Math.min\<close> and \<^verbatim>\<open>Math.round\<close>
  (which rounds a half towards plus infinity).\<close>

fun Math_abs :: "jsnum \<Rightarrow> jsnum" where
  "Math_abs (Fin x) = Fin \<bar>x\<bar>"
| "Math_abs PInf = PInf"
| "Math_abs NInf = PInf"
| "Math_abs NaN = NaN"

fun Math_sqrt :: "jsnum \<Rightarrow> jsnum" where
  "Math_sqrt (Fin x) = (if x < 0 then NaN else Fin (sqrt x))"
| "Math_sqrt PInf = PInf"
| "Math_sqrt NInf = NaN"
| "Math_sqrt NaN = NaN"

fun Math_max :: "jsnum \<Rightarrow> jsnum \<Rightarrow> jsnum" where
  "Math_max NaN _ = NaN"
| "Math_max _ NaN = NaN"
| "Math_max a b = (if a < b then b else a)"

fun Math_min :: "jsnum \<Rightarrow> jsnum \<Rightarrow> jsnum" where
  "Math_min NaN _ = NaN"
| "Math_min _ NaN = NaN"
| "Math_min a b = (if b < a then b else a)"

fun Math_round :: "jsnum \<Rightarrow> jsnum" where
  "Math_round (Fin x) = Fin (of_int \<lfloor>x + 1 / 2\<rfloor>)"
| "Math_round a = a"

text \<open>\<^verbatim>\<open>Math.pow\<close> and \<^verbatim>\<open>**\<close> at the three exponents the code uses: 2, 3 and 1.5.\<close>

fun pow2 :: "jsnum \<Rightarrow> jsnum" where
  "pow2 (Fin x) = Fin (x * x)"
| "pow2 PInf = PInf"
| "pow2 NInf = PInf"
| "pow2 NaN = NaN"

fun pow3 :: "jsnum \<Rightarrow> jsnum" where
  "pow3 (Fin x) = Fin (x * x * x)"
| "pow3 a = a"

fun pow1_5 :: "jsnum \<Rightarrow> jsnum" where
  "pow1_5 (Fin x) = (if x < 0 then NaN else Fin (x powr (3 / 2)))"
| "pow1_5 PInf = PInf"
| "pow1_5 NInf = PInf"
| "pow1_5 NaN = NaN"

text \<open>\<^verbatim>\<open>xs.reduce((sum, val) => sum + f(val), 0)\<close> and the variant whose callback
  also reads the index. Reading an array past its end gives \<^verbatim>\<open>undefined\<close>, which
  arithmetic turns into NaN.\<close>

definition reduce_sum :: "('a \<Rightarrow> jsnum) \<Rightarrow> 'a list \<Rightarrow> jsnum" where
  "reduce_sum f xs = foldl (\<lambda>sum val. sum + f val) 0 xs"

definition elemAt :: "jsnum list \<Rightarrow> nat \<Rightarrow> jsnum" where
  "elemAt xs i = (if i < length xs then xs ! i else NaN)"

definition reduce_sum_i :: "(jsnum \<Rightarrow> nat \<Rightarrow> jsnum) \<Rightarrow> jsnum list \<Rightarrow> jsnum" where
  "reduce_sum_i f xs = foldl (\<lambda>sum (val, i). sum + f val i) 0 (zip xs [0..<length xs])"

definition len :: "'a list \<Rightarrow> jsnum" where
  "len xs = Fin (real (length xs))"

section \<open>Rounding to double precision\<close>

text \<open>
  The result of an operation is rounded to the nearest double: a number with a mantissa
  of 53 bits, or a multiple of \<open>2 powi (- 1074)\<close> below \<open>2 powi (- 1022)\<close>. A tie goes
  to the even mantissa, and a rounded value of magnitude \<open>2 powi 1024\<close> or more becomes
  an infinity. \<^verbatim>\<open>Math.sqrt\<close> and the square are taken as correctly rounded. A decimal
  literal of the source denotes the double nearest to it.
\<close>

definition rne :: "real \<Rightarrow> int" where
  "rne y = (let f = \<lfloor>y\<rfloor>
            in if y - of_int f < 1 / 2 then f
               else if 1 / 2 < y - of_int f then f + 1
               else if even f then f else f + 1)"

definition binade :: "real \<Rightarrow> int" where
  "binade x = \<lfloor>log 2 \<bar>x\<bar>\<rfloor>"

definition ulpExponent :: "real \<Rightarrow> int" where
  "ulpExponent x = max (binade x) (- 1022) - 52"

definition double :: "real \<Rightarrow> real" where
  "double x = (if x = 0 then 0
               else of_int (rne (x / 2 powi ulpExponent x)) * 2 powi ulpExponent x)"

fun rnd :: "jsnum \<Rightarrow> jsnum" where
  "rnd (Fin x) = (if 2 powi 1024 \<le> \<bar>double x\<bar> then (if 0 < x then PInf else NInf)
                  else Fin (double x))"
| "rnd a = a"

definition num :: "real \<Rightarrow> jsnum" where
  "num x = rnd (Fin x)"

text \<open>The two forms of \<^verbatim>\<open>reduce\<close>, each sum rounded.\<close>

definition reduce_sum_double :: "('a \<Rightarrow> jsnum) \<Rightarrow> 'a list \<Rightarrow> jsnum" where
  "reduce_sum_double f xs = foldl (\<lambda>sum val. rnd (sum + f val)) 0 xs"

definition reduce_sum_i_double :: "(jsnum \<Rightarrow> nat \<Rightarrow> jsnum) \<Rightarrow> jsnum list \<Rightarrow> jsnum" where
  "reduce_sum_i_double f xs =
     foldl (\<lambda>sum (val, i). rnd (sum + f val i)) 0 (zip xs [0..<length xs])"

section \<open>Grading configuration and results\<close>

record Thresholds =
  thr_Aplus :: jsnum
  thr_A :: jsnum
  thr_B :: jsnum
  thr_C :: jsnum
  thr_D :: jsnum
  thr_F :: jsnum

record StyleAdjustments =
  cartoon :: jsnum
  sketch :: jsnum
  realistic :: jsnum
  abstract :: jsnum

record GradingConfig =
  thresholds :: Thresholds
  styleAdjustments :: StyleAdjustments

definition defaultGradingConfig :: GradingConfig where
  "defaultGradingConfig =
     \<lparr>thresholds = \<lparr>thr_Aplus = Fin 90, thr_A = Fin 80, thr_B = Fin 70,
                    thr_C = Fin 60, thr_D = Fin 50, thr_F = Fin 0\<rparr>,
      styleAdjustments = \<lparr>cartoon = num 1.05, sketch = num 1.03,
                          realistic = num 1.0, abstract = num 0.98\<rparr>\<rparr>"

record Similarities =
  cosineSimilarity :: jsnum
  ssimScore :: jsnum
  structuralSimilarity :: jsnum

record Style =
  style :: string
  confidence :: jsnum

record EnhancedComparisonResult =
  similarity :: jsnum
  ssimScore_r :: jsnum
  grade :: string
  color :: string
  style_r :: string
  styleConfidence :: jsnum
  feedback :: "string list"

section \<open>Feedback\<close>

definition styleSentence :: "string \<Rightarrow> string" where
  "styleSentence s = ''Nice '' @ s @ '' style execution.''"

definition overallSentence :: "jsnum \<Rightarrow> string" where
  "overallSentence percentage =
     (if Fin 85 \<le> percentage then
        ''Outstanding work! Your drawing is remarkably similar to the reference.''
      else if Fin 70 \<le> percentage then
        ''Great job! Your drawing captures most key elements effectively.''
      else if Fin 55 \<le> percentage then
        ''Good effort! You've captured some important similarities.''
      else if Fin 40 \<le> percentage then
        ''Fair attempt. Focus on matching the main shapes and proportions.''
      else if Fin 25 \<le> percentage then
        ''Keep practicing! Try to observe the reference more carefully.''
      else
        ''This appears quite different from the reference. Study the original more closely.'')"

text \<open>\<^verbatim>\<open>generateAccurateFeedback\<close>: the list starts empty and each \<^verbatim>\<open>push\<close> appends.
  The function is split at its three comments: the sentence on the overall performance,
  the sentences on the metrics, the sentence on the style.\<close>

definition metricFeedback :: "Similarities \<Rightarrow> string list" where
  "metricFeedback similarities =
     (if cosineSimilarity similarities < Fin 0.3 then
        [''The overall content and subject matter differ significantly from the reference.'']
      else if cosineSimilarity similarities < Fin 0.6 then
        [''Some elements match the reference, but key features are missing or different.'']
      else [])
     @ (if ssimScore similarities < Fin 0.4 then
          [''The visual structure and layout need significant improvement.'']
        else if ssimScore similarities < Fin 0.7 then
          [''Good structural foundation, but details could be more accurate.'']
        else [])
     @ (if structuralSimilarity similarities < Fin 0.4 then
          [''Focus on matching the basic proportions and spatial relationships.'']
        else [])"

definition styleFeedback :: "Style \<Rightarrow> string list" where
  "styleFeedback st = (if Fin 0.7 < confidence st then [styleSentence (style st)] else [])"

definition generateAccurateFeedback :: "Similarities \<Rightarrow> Style \<Rightarrow> jsnum \<Rightarrow> string list" where
  "generateAccurateFeedback similarities st percentage =
     [overallSentence percentage] @ metricFeedback similarities @ styleFeedback st"

text \<open>The six sentences on the overall performance, the five on the metrics, and the
  shape of a sentence on the style: \<^verbatim>\<open>Nice\<close>, a style, \<^verbatim>\<open>style execution.\<close>\<close>

definition overallSentences :: "string list" where
  "overallSentences =
     [''Outstanding work! Your drawing is remarkably similar to the reference.'',
      ''Great job! Your drawing captures most key elements effectively.'',
      ''Good effort! You've captured some important similarities.'',
      ''Fair attempt. Focus on matching the main shapes and proportions.'',
      ''Keep practicing! Try to observe the reference more carefully.'',
      ''This appears quite different from the reference. Study the original more closely.'']"

definition metricSentences :: "string list" where
  "metricSentences =
     [''The overall content and subject matter differ significantly from the reference.'',
      ''Some elements match the reference, but key features are missing or different.'',
      ''The visual structure and layout need significant improvement.'',
      ''Good structural foundation, but details could be more accurate.'',
      ''Focus on matching the basic proportions and spatial relationships.'']"

definition isStyleSentence :: "string \<Rightarrow> bool" where
  "isStyleSentence x =
     (22 \<le> length x \<and> take 5 x = ''Nice '' \<and> drop (length x - 17) x = '' style execution.'')"

section \<open>Grading\<close>

text \<open>
  \<^verbatim>\<open>config.styleAdjustments[style.style]\<close> reads a property of a plain object. The
  result is the number under one of the four keys of the object, a function or an
  object for a name that every object inherits from \<^verbatim>\<open>Object.prototype\<close>, and
  \<^verbatim>\<open>undefined\<close> for any other string.
\<close>

datatype jsval = Number jsnum | Undefined | Object

definition objectPrototypeKeys :: "string list" where
  "objectPrototypeKeys =
     [''constructor'', ''hasOwnProperty'', ''isPrototypeOf'', ''propertyIsEnumerable'',
      ''toLocaleString'', ''toString'', ''valueOf'', ''__proto__'',
      ''__defineGetter__'', ''__defineSetter__'', ''__lookupGetter__'', ''__lookupSetter__'']"

definition lookupAdjustment :: "StyleAdjustments \<Rightarrow> string \<Rightarrow> jsval" where
  "lookupAdjustment adj key =
     (if key = ''cartoon'' then Number (cartoon adj)
      else if key = ''sketch'' then Number (sketch adj)
      else if key = ''realistic'' then Number (realistic adj)
      else if key = ''abstract'' then Number (abstract adj)
      else if key \<in> set objectPrototypeKeys then Object
      else Undefined)"

text \<open>\<^verbatim>\<open>v || 1.0\<close> keeps a truthy value: a number other than 0 and NaN, a function or
  an object. In a product, a function or an object counts as NaN, as \<^verbatim>\<open>undefined\<close> does.\<close>

fun truthy :: "jsval \<Rightarrow> bool" where
  "truthy (Number (Fin x)) = (x \<noteq> 0)"
| "truthy (Number NaN) = False"
| "truthy (Number PInf) = True"
| "truthy (Number NInf) = True"
| "truthy Undefined = False"
| "truthy Object = True"

fun toNumber :: "jsval \<Rightarrow> jsnum" where
  "toNumber (Number x) = x"
| "toNumber Undefined = NaN"
| "toNumber Object = NaN"

definition styleAdjustment :: "GradingConfig \<Rightarrow> Style \<Rightarrow> jsval" where
  "styleAdjustment config st =
     (let v = lookupAdjustment (styleAdjustments config) (style st)
      in if truthy v then v else Number (num 1.0))"

definition combinedScore :: "Similarities \<Rightarrow> jsnum" where
  "combinedScore similarities =
     rnd (rnd (rnd (cosineSimilarity similarities * num 0.5)
               + rnd (ssimScore similarities * num 0.35))
          + rnd (structuralSimilarity similarities * num 0.15))"

text \<open>The percentage after the style adjustment and the clamp, before it is rounded
  to an integer.\<close>

definition finalPercentage :: "Similarities \<Rightarrow> Style \<Rightarrow> GradingConfig \<Rightarrow> jsnum" where
  "finalPercentage similarities st config =
     Math_max 0 (Math_min (Fin 100)
       (rnd (rnd (combinedScore similarities * Fin 100) * toNumber (styleAdjustment config st))))"

text \<open>The chain of comparisons that maps a percentage to its letter and colour.\<close>

definition gradeBand :: "GradingConfig \<Rightarrow> jsnum \<Rightarrow> string \<times> string" where
  "gradeBand config percentage =
     (if thr_Aplus (thresholds config) \<le> percentage then (''A+'', ''bg-green-600'')
      else if thr_A (thresholds config) \<le> percentage then (''A'', ''bg-green-500'')
      else if thr_B (thresholds config) \<le> percentage then (''B'', ''bg-yellow-500'')
      else if thr_C (thresholds config) \<le> percentage then (''C'', ''bg-orange-500'')
      else if thr_D (thresholds config) \<le> percentage then (''D'', ''bg-red-400'')
      else (''F'', ''bg-red-600''))"

definition generateEnhancedGrade :: "Similarities \<Rightarrow> Style \<Rightarrow> GradingConfig \<Rightarrow> EnhancedComparisonResult" where
  "generateEnhancedGrade similarities st config =
     (let percentage = finalPercentage similarities st config;
          (g, c) = gradeBand config percentage
      in \<lparr>similarity = Math_round percentage,
          ssimScore_r = Math_round (rnd (ssimScore similarities * Fin 100)),
          grade = g,
          color = c,
          style_r = style st,
          styleConfidence = confidence st,
          feedback = generateAccurateFeedback similarities st percentage\<rparr>)"

text \<open>The order of the letters, lowest first.\<close>

definition letterRank :: "string \<Rightarrow> nat" where
  "letterRank g =
     (if g = ''A+'' then 5 else if g = ''A'' then 4 else if g = ''B'' then 3
      else if g = ''C'' then 2 else if g = ''D'' then 1 else 0)"

section \<open>Feature statistics and the similarity metrics\<close>

text \<open>The mean and the variance of a vector, as the statistical metric and the style
  classifier compute them.\<close>

definition meanOf :: "jsnum list \<Rightarrow> jsnum" where
  "meanOf features = reduce_sum (\<lambda>val. val) features / len features"

definition varianceOf :: "jsnum list \<Rightarrow> jsnum" where
  "varianceOf features =
     reduce_sum (\<lambda>val. pow2 (val - meanOf features)) features / len features"

text \<open>The cosine similarity, every operation rounded to a double.\<close>

definition normalizeFeatures :: "jsnum list \<Rightarrow> jsnum list" where
  "normalizeFeatures features =
     (let mean = rnd (reduce_sum_double (\<lambda>val. val) features / len features);
          std = rnd (Math_sqrt (rnd (reduce_sum_double
                  (\<lambda>val. rnd (pow2 (rnd (val - mean)))) features / len features)))
      in map (\<lambda>val. if 0 < std then rnd (rnd (val - mean) / std) else 0) features)"

definition calculateAccurateCosineSimilarity :: "jsnum list \<Rightarrow> jsnum list \<Rightarrow> jsnum" where
  "calculateAccurateCosineSimilarity a b =
     (if length a \<noteq> length b then 0
      else
        let normA = normalizeFeatures a;
            normB = normalizeFeatures b;
            dotProduct = reduce_sum_i_double (\<lambda>val i. rnd (val * elemAt normB i)) normA;
            magnitudeA = rnd (Math_sqrt (reduce_sum_double (\<lambda>val. rnd (val * val)) normA));
            magnitudeB = rnd (Math_sqrt (reduce_sum_double (\<lambda>val. rnd (val * val)) normB))
        in if js_eq magnitudeA 0 \<or> js_eq magnitudeB 0 then 0
           else
             let similarity = rnd (dotProduct / rnd (magnitudeA * magnitudeB));
                 normalizedSim = rnd (rnd (similarity + 1) / Fin 2)
             in rnd (pow2 normalizedSim))"

text \<open>\<^verbatim>\<open>calculateCorrelation\<close>: the loop carries the numerator and the two sums of squares.\<close>

definition correlationStep :: "jsnum list \<Rightarrow> jsnum list \<Rightarrow> jsnum \<Rightarrow> jsnum \<Rightarrow>
    jsnum \<times> jsnum \<times> jsnum \<Rightarrow> nat \<Rightarrow> jsnum \<times> jsnum \<times> jsnum" where
  "correlationStep x y meanX meanY acc i =
     (case acc of (numerator, sumXSquared, sumYSquared) \<Rightarrow>
        let xDiff = elemAt x i - meanX;
            yDiff = elemAt y i - meanY
        in (numerator + xDiff * yDiff, sumXSquared + xDiff * xDiff, sumYSquared + yDiff * yDiff))"

definition calculateCorrelation :: "jsnum list \<Rightarrow> jsnum list \<Rightarrow> jsnum" where
  "calculateCorrelation x y =
     (let n = length x;
          meanX = reduce_sum (\<lambda>val. val) x / Fin (real n);
          meanY = reduce_sum (\<lambda>val. val) y / Fin (real n);
          (numerator, sumXSquared, sumYSquared) =
             foldl (correlationStep x y meanX meanY) (0, 0, 0) [0..<n];
          denominator = Math_sqrt (sumXSquared * sumYSquared)
      in if js_eq denominator 0 then 0
         else Math_max 0 (numerator / denominator))"

definition skewnessOf :: "jsnum list \<Rightarrow> jsnum" where
  "skewnessOf features =
     reduce_sum (\<lambda>val. pow3 (val - meanOf features)) features
       / (len features * pow1_5 (varianceOf features))"

definition calculateAccurateStructuralSimilarity :: "jsnum list \<Rightarrow> jsnum list \<Rightarrow> jsnum" where
  "calculateAccurateStructuralSimilarity features1 features2 =
     (if length features1 \<noteq> length features2 then 0
      else
        let mean1 = meanOf features1;
            mean2 = meanOf features2;
            variance1 = varianceOf features1;
            variance2 = varianceOf features2;
            skewness1 = skewnessOf features1;
            skewness2 = skewnessOf features2;
            meanSim = 1 / (1 + Math_abs (mean1 - mean2) * Fin 10);
            varSim = 1 / (1 + Math_abs (variance1 - variance2) * Fin 100);
            skewSim = 1 / (1 + Math_abs (skewness1 - skewness2) * Fin 5);
            correlation = calculateCorrelation features1 features2;
            structuralSim = meanSim * Fin 0.2 + varSim * Fin 0.2 + skewSim * Fin 0.2
                            + correlation * Fin 0.4
        in pow2 structuralSim)"

section \<open>Style classification\<close>


section \<open>Structural similarity of two images\<close>

text \<open>
  The pixel data of a canvas is an array of bytes, four per pixel. The loop
  \<^verbatim>\<open>for (let i = 0; i < data1.length; i += 4)\<close> reads three bytes of each array at
  every step; a read past the end gives \<^verbatim>\<open>undefined\<close>, hence NaN.
\<close>

definition byteAt :: "8 word list \<Rightarrow> nat \<Rightarrow> jsnum" where
  "byteAt d i = (if i < length d then Fin (real (unat (d ! i))) else NaN)"

definition luma :: "8 word list \<Rightarrow> nat \<Rightarrow> jsnum" where
  "luma d i = Fin 0.299 * byteAt d i + Fin 0.587 * byteAt d (i + 1) + Fin 0.114 * byteAt d (i + 2)"

definition pixelOffsets :: "8 word list \<Rightarrow> nat list" where
  "pixelOffsets data1 = map (\<lambda>k. 4 * k) [0..<(length data1 + 3) div 4]"

definition gray1Of :: "8 word list \<Rightarrow> jsnum list" where
  "gray1Of data1 = map (luma data1) (pixelOffsets data1)"

definition gray2Of :: "8 word list \<Rightarrow> 8 word list \<Rightarrow> jsnum list" where
  "gray2Of data1 data2 = map (luma data2) (pixelOffsets data1)"

definition ssimOf :: "8 word list \<Rightarrow> 8 word list \<Rightarrow> jsnum" where
  "ssimOf data1 data2 =
     (let gray1 = gray1Of data1;
          gray2 = gray2Of data1 data2;
          mean1 = reduce_sum (\<lambda>val. val) gray1 / len gray1;
          mean2 = reduce_sum (\<lambda>val. val) gray2 / len gray2;
          var1 = reduce_sum (\<lambda>val. pow2 (val - mean1)) gray1 / len gray1;
          var2 = reduce_sum (\<lambda>val. pow2 (val - mean2)) gray2 / len gray2;
          covar = reduce_sum_i (\<lambda>val i. (val - mean1) * (elemAt gray2 i - mean2)) gray1 / len gray1;
          c1 = pow2 (Fin 0.01 * Fin 255);
          c2 = pow2 (Fin 0.03 * Fin 255);
          numerator = (Fin 2 * mean1 * mean2 + c1) * (Fin 2 * covar + c2);
          denominator = (pow2 mean1 + pow2 mean2 + c1) * (var1 + var2 + c2)
      in if 0 < denominator then numerator / denominator else 0)"

definition clampedSSIM :: "8 word list \<Rightarrow> 8 word list \<Rightarrow> jsnum" where
  "clampedSSIM data1 data2 = Math_max 0 (Math_min 1 (ssimOf data1 data2))"

text \<open>
  \<^verbatim>\<open>calculateAccurateSSIM\<close> returns a promise and registers four handlers. Each image
  later fires \<^verbatim>\<open>onload\<close> or \<^verbatim>\<open>onerror\<close>; the handlers run one after the other in
  the order of the events. The state they share is the counter \<^verbatim>\<open>loadedCount\<close> and
  the promise, which keeps the value of the first \<^verbatim>\<open>resolve\<close> and ignores the later
  ones. The two byte lists are what the two canvases hold once both images are drawn.
\<close>

datatype ImageEvent = Load1 | Load2 | Error1 | Error2

record SSIMState =
  loadedCount :: nat
  settled :: "jsnum option"

definition resolve :: "jsnum \<Rightarrow> SSIMState \<Rightarrow> SSIMState" where
  "resolve v s = (case settled s of None \<Rightarrow> s\<lparr>settled := Some v\<rparr> | Some _ \<Rightarrow> s)"

definition processImages :: "8 word list \<Rightarrow> 8 word list \<Rightarrow> SSIMState \<Rightarrow> SSIMState" where
  "processImages data1 data2 s =
     (let s' = s\<lparr>loadedCount := loadedCount s + 1\<rparr>
      in if loadedCount s' = 2 then resolve (pow1_5 (clampedSSIM data1 data2)) s' else s')"

fun handleEvent :: "8 word list \<Rightarrow> 8 word list \<Rightarrow> SSIMState \<Rightarrow> ImageEvent \<Rightarrow> SSIMState" where
  "handleEvent data1 data2 s Load1 = processImages data1 data2 s"
| "handleEvent data1 data2 s Load2 = processImages data1 data2 s"
| "handleEvent data1 data2 s Error1 = resolve (Fin 0.1) s"
| "handleEvent data1 data2 s Error2 = resolve (Fin 0.1) s"

text \<open>The result is the value the promise settles with, or \<open>None\<close> when it stays
  pending. The two flags say whether each canvas gave a 2D context.\<close>

definition calculateAccurateSSIM ::
    "bool \<Rightarrow> bool \<Rightarrow> 8 word list \<Rightarrow> 8 word list \<Rightarrow> ImageEvent list \<Rightarrow> jsnum option" where
  "calculateAccurateSSIM ctx1 ctx2 data1 data2 events =
     (if \<not> ctx1 \<or> \<not> ctx2 then Some (Fin 0.1)
      else settled (foldl (handleEvent data1 data2) \<lparr>loadedCount = 0, settled = None\<rparr> events))"

text \<open>An image fires one event at most: the events of a run name each image once.\<close>

fun imageOf :: "ImageEvent \<Rightarrow> nat" where
  "imageOf Load1 = 1"
| "imageOf Error1 = 1"
| "imageOf Load2 = 2"
| "imageOf Error2 = 2"

fun isError :: "ImageEvent \<Rightarrow> bool" where
  "isError Error1 = True"
| "isError Error2 = True"
| "isError _ = False"

text \<open>
  \<^verbatim>\<open>calculateEnhancedSimilarity\<close> first awaits the two feature vectors (a rejected
  extraction rejects the whole comparison), then the structural similarity, and
  returns the three metrics.
\<close>

datatype 'a promise = Pending | Rejected | Resolved 'a

definition calculateEnhancedSimilarity ::
    "jsnum list promise \<Rightarrow> jsnum list promise \<Rightarrow> jsnum option \<Rightarrow> Similarities promise" where
  "calculateEnhancedSimilarity extracted1 extracted2 ssim =
     (case (extracted1, extracted2) of
        (Resolved features1, Resolved features2) \<Rightarrow>
          (case ssim of
             None \<Rightarrow> Pending
           | Some score \<Rightarrow>
               Resolved \<lparr>cosineSimilarity = calculateAccurateCosineSimilarity features1 features2,
                         ssimScore = score,
                         structuralSimilarity =
                           calculateAccurateStructuralSimilarity features1 features2\<rparr>)
      | (Rejected, _) \<Rightarrow> Rejected
      | (_, Rejected) \<Rightarrow> Rejected
      | _ \<Rightarrow> Pending)"

section \<open>Configurations without thresholds\<close>

text \<open>The six thresholds of the configuration are 0.\<close>

definition zeroThresholds :: "GradingConfig \<Rightarrow> bool" where
  "zeroThresholds config =
     (thresholds config = \<lparr>thr_Aplus = Fin 0, thr_A = Fin 0, thr_B = Fin 0,
                            thr_C = Fin 0, thr_D = Fin 0, thr_F = Fin 0\<rparr>)"

section \<open>Properties of the grading engine\<close>

lemma jsnum_less_le_trans: "(b::jsnum) < a \<Longrightarrow> t \<le> b \<Longrightarrow> t \<le> a"
  by (cases a; cases b; cases t) auto

text \<open>
  Claim C3. The mapping from percentage to letter is monotonic: under one
  configuration, whatever its thresholds, a larger percentage never gets a letter
  that is lower in the order F, D, C, B, A, A+ than the letter of a smaller one.
\<close>

theorem gradeBand_monotonic:
  "pB < pA \<Longrightarrow> letterRank (fst (gradeBand config pB)) \<le> letterRank (fst (gradeBand config pA))"
  by (auto simp: gradeBand_def letterRank_def dest: jsnum_less_le_trans)

theorem gradeBand_monotonic_witness:
  "Fin 75 < Fin 85 \<and> letterRank (fst (gradeBand defaultGradingConfig (Fin 75)))
      \<le> letterRank (fst (gradeBand defaultGradingConfig (Fin 85)))
   \<and> fst (gradeBand defaultGradingConfig (Fin 75)) = ''B''
   \<and> fst (gradeBand defaultGradingConfig (Fin 85)) = ''A''"
  using gradeBand_monotonic [of "Fin 75" "Fin 85" defaultGradingConfig]
  by (simp add: gradeBand_def defaultGradingConfig_def)

lemma isFinite_iff: "isFinite a \<longleftrightarrow> (\<exists>x. a = Fin x)"
  by (cases a) auto

lemma similarity_generateEnhancedGrade:
  "similarity (generateEnhancedGrade s st config) = Math_round (finalPercentage s st config)"
  by (simp add: generateEnhancedGrade_def Let_def split: prod.split)

lemma grade_generateEnhancedGrade:
  "grade (generateEnhancedGrade s st config) = fst (gradeBand config (finalPercentage s st config))"
  by (simp add: generateEnhancedGrade_def Let_def split: prod.split)


section \<open>Properties of the feedback\<close>

lemma isStyleSentence_styleSentence: "isStyleSentence (styleSentence t)"
  by (simp add: isStyleSentence_def styleSentence_def)

lemma overallSentence_mem: "overallSentence p \<in> set overallSentences"
  by (simp add: overallSentence_def overallSentences_def)

lemma overall_not_style: "x \<in> set overallSentences \<Longrightarrow> \<not> isStyleSentence x"
  by (auto simp: overallSentences_def isStyleSentence_def)

lemma metric_not_style: "x \<in> set metricSentences \<Longrightarrow> \<not> isStyleSentence x"
  by (auto simp: metricSentences_def isStyleSentence_def)

lemma metric_not_overall: "x \<in> set metricSentences \<Longrightarrow> x \<notin> set overallSentences"
  by (auto simp: metricSentences_def overallSentences_def)

lemma style_not_overall: "styleSentence t \<notin> set overallSentences"
  using overall_not_style isStyleSentence_styleSentence by blast

lemma metricFeedback_subset: "set (metricFeedback s) \<subseteq> set metricSentences"
  by (auto simp: metricFeedback_def metricSentences_def)

lemma filter_none: "(\<And>x. x \<in> set xs \<Longrightarrow> \<not> P x) \<Longrightarrow> filter P xs = []"
  by (induction xs) auto

lemma metricFeedback_no_overall: "filter (\<lambda>x. x \<in> set overallSentences) (metricFeedback s) = []"
  using metricFeedback_subset metric_not_overall by (intro filter_none) blast

lemma metricFeedback_no_style: "filter isStyleSentence (metricFeedback s) = []"
  using metricFeedback_subset metric_not_style by (intro filter_none) blast



text \<open>
  Claim C9. For all scores, every style and every percentage, the feedback is not empty.
  Its first sentence is the sentence on the overall performance of the band of the
  percentage: from 85, from 70, from 55, from 40, from 25, or below (a percentage that
  is NaN falls in the last band). It is the only one of the six sentences that the list
  holds. The list holds one sentence on the style, in the last place, when the
  confidence of the style is above 0.7, and none otherwise.
\<close>

theorem feedback_shape:
  "generateAccurateFeedback s st p \<noteq> [] \<and>
   hd (generateAccurateFeedback s st p) =
     (if Fin 85 \<le> p then ''Outstanding work! Your drawing is remarkably similar to the reference.''
      else if Fin 70 \<le> p then ''Great job! Your drawing captures most key elements effectively.''
      else if Fin 55 \<le> p then ''Good effort! You've captured some important similarities.''
      else if Fin 40 \<le> p then ''Fair attempt. Focus on matching the main shapes and proportions.''
      else if Fin 25 \<le> p then ''Keep practicing! Try to observe the reference more carefully.''
      else ''This appears quite different from the reference. Study the original more closely.'') \<and>
   length (filter (\<lambda>x. x \<in> set
       [''Outstanding work! Your drawing is remarkably similar to the reference.'',
        ''Great job! Your drawing captures most key elements effectively.'',
        ''Good effort! You've captured some important similarities.'',
        ''Fair attempt. Focus on matching the main shapes and proportions.'',
        ''Keep practicing! Try to observe the reference more carefully.'',
        ''This appears quite different from the reference. Study the original more closely.''])
     (generateAccurateFeedback s st p)) = 1 \<and>
   (if Fin 0.7 < confidence st
    then length (filter isStyleSentence (generateAccurateFeedback s st p)) = 1 \<and>
         last (generateAccurateFeedback s st p) = ''Nice '' @ style st @ '' style execution.''
    else filter isStyleSentence (generateAccurateFeedback s st p) = [])"
proof -
  have o: "overallSentence p \<in> set overallSentences" by (rule overallSentence_mem)
  then have ns: "\<not> isStyleSentence (overallSentence p)" by (rule overall_not_style)
  have "generateAccurateFeedback s st p \<noteq> [] \<and>
   hd (generateAccurateFeedback s st p) = overallSentence p \<and>
   length (filter (\<lambda>x. x \<in> set overallSentences) (generateAccurateFeedback s st p)) = 1 \<and>
   (if Fin 0.7 < confidence st
    then length (filter isStyleSentence (generateAccurateFeedback s st p)) = 1 \<and>
         last (generateAccurateFeedback s st p) = styleSentence (style st)
    else filter isStyleSentence (generateAccurateFeedback s st p) = [])"
    using o ns
    by (simp add: generateAccurateFeedback_def styleFeedback_def metricFeedback_no_overall
        metricFeedback_no_style style_not_overall isStyleSentence_styleSentence)
  then show ?thesis
    unfolding overallSentence_def overallSentences_def styleSentence_def .
qed

theorem feedback_shape_witness:
  "hd (generateAccurateFeedback \<lparr>cosineSimilarity = Fin 0.5, ssimScore = Fin 0.9, structuralSimilarity = Fin 0.2\<rparr>
      \<lparr>style = ''sketch'', confidence = Fin 0.85\<rparr> (Fin 90)) = ''Outstanding work! Your drawing is remarkably similar to the reference.'' \<and>
   hd (generateAccurateFeedback \<lparr>cosineSimilarity = Fin 0.5, ssimScore = Fin 0.9, structuralSimilarity = Fin 0.2\<rparr>
      \<lparr>style = ''sketch'', confidence = Fin 0.85\<rparr> (Fin 85)) = ''Outstanding work! Your drawing is remarkably similar to the reference.'' \<and>
   hd (generateAccurateFeedback \<lparr>cosineSimilarity = Fin 0.5, ssimScore = Fin 0.9, structuralSimilarity = Fin 0.2\<rparr>
      \<lparr>style = ''sketch'', confidence = Fin 0.85\<rparr> (Fin 72)) = ''Great job! Your drawing captures most key elements effectively.'' \<and>
   hd (generateAccurateFeedback \<lparr>cosineSimilarity = Fin 0.5, ssimScore = Fin 0.9, structuralSimilarity = Fin 0.2\<rparr>
      \<lparr>style = ''sketch'', confidence = Fin 0.85\<rparr> (Fin 62)) = ''Good effort! You've captured some important similarities.'' \<and>
   hd (generateAccurateFeedback \<lparr>cosineSimilarity = Fin 0.5, ssimScore = Fin 0.9, structuralSimilarity = Fin 0.2\<rparr>
      \<lparr>style = ''sketch'', confidence = Fin 0.85\<rparr> (Fin 45)) = ''Fair attempt. Focus on matching the main shapes and proportions.'' \<and>
   hd (generateAccurateFeedback \<lparr>cosineSimilarity = Fin 0.5, ssimScore = Fin 0.9, structuralSimilarity = Fin 0.2\<rparr>
      \<lparr>style = ''sketch'', confidence = Fin 0.85\<rparr> (Fin 30)) = ''Keep practicing! Try to observe the reference more carefully.'' \<and>
   hd (generateAccurateFeedback \<lparr>cosineSimilarity = Fin 0.5, ssimScore = Fin 0.9, structuralSimilarity = Fin 0.2\<rparr>
      \<lparr>style = ''sketch'', confidence = Fin 0.85\<rparr> (Fin 10)) = ''This appears quite different from the reference. Study the original more closely.'' \<and>
   hd (generateAccurateFeedback \<lparr>cosineSimilarity = Fin 0.5, ssimScore = Fin 0.9, structuralSimilarity = Fin 0.2\<rparr>
      \<lparr>style = ''sketch'', confidence = Fin 0.85\<rparr> NaN) = ''This appears quite different from the reference. Study the original more closely.'' \<and>
   Fin 0.7 < confidence \<lparr>style = ''sketch'', confidence = Fin 0.85\<rparr> \<and>
   length (filter isStyleSentence (generateAccurateFeedback \<lparr>cosineSimilarity = Fin 0.5, ssimScore = Fin 0.9, structuralSimilarity = Fin 0.2\<rparr>
      \<lparr>style = ''sketch'', confidence = Fin 0.85\<rparr> (Fin 62))) = 1 \<and>
   last (generateAccurateFeedback \<lparr>cosineSimilarity = Fin 0.5, ssimScore = Fin 0.9, structuralSimilarity = Fin 0.2\<rparr>
      \<lparr>style = ''sketch'', confidence = Fin 0.85\<rparr> (Fin 62)) = ''Nice sketch style execution.'' \<and>
   \<not> Fin 0.7 < confidence \<lparr>style = ''abstract'', confidence = Fin 0.7\<rparr> \<and>
   filter isStyleSentence (generateAccurateFeedback \<lparr>cosineSimilarity = Fin 0.5, ssimScore = Fin 0.9, structuralSimilarity = Fin 0.2\<rparr>
      \<lparr>style = ''abstract'', confidence = Fin 0.7\<rparr> (Fin 62)) = []"
  using feedback_shape [of "\<lparr>cosineSimilarity = Fin 0.5, ssimScore = Fin 0.9, structuralSimilarity = Fin 0.2\<rparr>" "\<lparr>style = ''sketch'', confidence = Fin 0.85\<rparr>" "Fin 90"] feedback_shape [of "\<lparr>cosineSimilarity = Fin 0.5, ssimScore = Fin 0.9, structuralSimilarity = Fin 0.2\<rparr>" "\<lparr>style = ''sketch'', confidence = Fin 0.85\<rparr>" "Fin 85"]
    feedback_shape [of "\<lparr>cosineSimilarity = Fin 0.5, ssimScore = Fin 0.9, structuralSimilarity = Fin 0.2\<rparr>" "\<lparr>style = ''sketch'', confidence = Fin 0.85\<rparr>" "Fin 72"] feedback_shape [of "\<lparr>cosineSimilarity = Fin 0.5, ssimScore = Fin 0.9, structuralSimilarity = Fin 0.2\<rparr>" "\<lparr>style = ''sketch'', confidence = Fin 0.85\<rparr>" "Fin 62"]
    feedback_shape [of "\<lparr>cosineSimilarity = Fin 0.5, ssimScore = Fin 0.9, structuralSimilarity = Fin 0.2\<rparr>" "\<lparr>style = ''sketch'', confidence = Fin 0.85\<rparr>" "Fin 45"] feedback_shape [of "\<lparr>cosineSimilarity = Fin 0.5, ssimScore = Fin 0.9, structuralSimilarity = Fin 0.2\<rparr>" "\<lparr>style = ''sketch'', confidence = Fin 0.85\<rparr>" "Fin 30"]
    feedback_shape [of "\<lparr>cosineSimilarity = Fin 0.5, ssimScore = Fin 0.9, structuralSimilarity = Fin 0.2\<rparr>" "\<lparr>style = ''sketch'', confidence = Fin 0.85\<rparr>" "Fin 10"] feedback_shape [of "\<lparr>cosineSimilarity = Fin 0.5, ssimScore = Fin 0.9, structuralSimilarity = Fin 0.2\<rparr>" "\<lparr>style = ''sketch'', confidence = Fin 0.85\<rparr>" NaN]
    feedback_shape [of "\<lparr>cosineSimilarity = Fin 0.5, ssimScore = Fin 0.9, structuralSimilarity = Fin 0.2\<rparr>" "\<lparr>style = ''abstract'', confidence = Fin 0.7\<rparr>" "Fin 62"]
  by simp



section \<open>Properties of the similarity metrics\<close>

text \<open>
  Claim C5. For two feature vectors of unequal length, the cosine similarity and the
  statistical structural similarity both return 0; neither raises an error.
\<close>

theorem unequal_lengths_give_zero:
  "length a \<noteq> length b \<Longrightarrow>
     calculateAccurateCosineSimilarity a b = Fin 0 \<and>
     calculateAccurateStructuralSimilarity a b = Fin 0"
  by (simp add: calculateAccurateCosineSimilarity_def calculateAccurateStructuralSimilarity_def
      zero_jsnum_def)

theorem unequal_lengths_give_zero_witness:
  "length [Fin 1, Fin 2] \<noteq> length [Fin 3] \<and>
     calculateAccurateCosineSimilarity [Fin 1, Fin 2] [Fin 3] = Fin 0 \<and>
     calculateAccurateStructuralSimilarity [Fin 1, Fin 2] [Fin 3] = Fin 0"
  using unequal_lengths_give_zero [of "[Fin 1, Fin 2]" "[Fin 3]"] by simp

section \<open>Properties of the promise of the structural similarity\<close>

lemma handleEvent_error:
  "isError e \<Longrightarrow> handleEvent d1 d2 s e = resolve (Fin 0.1) s"
  by (cases e) auto

lemma handleEvent_load:
  "\<not> isError e \<Longrightarrow> loadedCount s + 1 < 2 \<Longrightarrow>
   handleEvent d1 d2 s e = s\<lparr>loadedCount := loadedCount s + 1\<rparr>"
  by (cases e) (auto simp: processImages_def Let_def)

lemma resolve_settled:
  "settled (resolve v s) = (case settled s of None \<Rightarrow> Some v | Some w \<Rightarrow> Some w)"
  by (simp add: resolve_def split: option.split)

lemma resolve_loadedCount: "loadedCount (resolve v s) = loadedCount s"
  by (simp add: resolve_def split: option.split)

lemma run_without_second_load:
  "loadedCount s + length (filter (\<lambda>e. \<not> isError e) events) < 2 \<Longrightarrow>
   settled s = None \<or> settled s = Some (Fin 0.1) \<Longrightarrow>
   settled (foldl (handleEvent d1 d2) s events)
     = (if settled s = None \<and> \<not> (\<exists>e \<in> set events. isError e) then None else Some (Fin 0.1))"
proof (induction events arbitrary: s)
  case Nil
  then show ?case by auto
next
  case (Cons e events)
  show ?case
  proof (cases "isError e")
    case True
    let ?s = "resolve (Fin 0.1) s"
    have 1: "loadedCount ?s + length (filter (\<lambda>e. \<not> isError e) events) < 2"
      using Cons.prems(1) True by (simp add: resolve_loadedCount)
    have 2: "settled ?s = Some (Fin 0.1)"
      using Cons.prems(2) by (auto simp: resolve_settled)
    show ?thesis
      using Cons.IH [of ?s] 1 2 True by (simp add: handleEvent_error)
  next
    case False
    let ?s = "s\<lparr>loadedCount := loadedCount s + 1\<rparr>"
    have h: "handleEvent d1 d2 s e = ?s"
      using Cons.prems(1) False by (intro handleEvent_load) auto
    have 1: "loadedCount ?s + length (filter (\<lambda>e. \<not> isError e) events) < 2"
      using Cons.prems(1) False by simp
    show ?thesis
      using Cons.IH [of ?s] 1 Cons.prems(2) False by (simp add: h)
  qed
qed

lemma imageOf_range: "imageOf e \<in> {1, 2}"
  by (cases e) auto

lemma once_per_image_length: "distinct (map imageOf events) \<Longrightarrow> length events \<le> 2"
proof -
  assume d: "distinct (map imageOf events)"
  have "set (map imageOf events) \<subseteq> {1, 2}" using imageOf_range by auto
  then have "card (set (map imageOf events)) \<le> card {1::nat, 2}"
    by (intro card_mono) auto
  then show ?thesis using distinct_card [OF d] by simp
qed

lemma at_most_one_load:
  assumes "distinct (map imageOf events)" and "\<exists>e \<in> set events. isError e"
  shows "length (filter (\<lambda>e. \<not> isError e) events) < 2"
proof -
  have "filter isError events \<noteq> []" using assms(2) by (simp add: filter_empty_conv)
  then have "0 < length (filter isError events)" by simp
  moreover have "length (filter isError events) + length (filter (\<lambda>e. \<not> isError e) events)
      = length events"
    by (rule sum_length_filter_compl)
  ultimately show ?thesis using once_per_image_length [OF assms(1)] by linarith
qed

text \<open>
  Claim C7. When a canvas gives no 2D context, or when one of the two images fires
  \<^verbatim>\<open>onerror\<close>, the promise of the structural similarity settles with the value 0.1
  and is never rejected; the comparison, whose features were extracted, then resolves
  with 0.1 as its structural score.
\<close>

theorem failed_image_gives_fail_soft_value:
  assumes "distinct (map imageOf events)"
    and "\<not> ctx1 \<or> \<not> ctx2 \<or> (\<exists>e \<in> set events. isError e)"
  shows "calculateAccurateSSIM ctx1 ctx2 data1 data2 events = Some (Fin 0.1) \<and>
         (\<exists>s. calculateEnhancedSimilarity (Resolved features1) (Resolved features2)
                 (calculateAccurateSSIM ctx1 ctx2 data1 data2 events) = Resolved s \<and>
               ssimScore s = Fin 0.1)"
proof -
  have r: "calculateAccurateSSIM ctx1 ctx2 data1 data2 events = Some (Fin 0.1)"
  proof (cases "\<not> ctx1 \<or> \<not> ctx2")
    case True
    then show ?thesis by (auto simp: calculateAccurateSSIM_def)
  next
    case False
    with assms(2) have e: "\<exists>e \<in> set events. isError e" by blast
    let ?s = "\<lparr>loadedCount = 0, settled = None\<rparr>"
    have "loadedCount ?s + length (filter (\<lambda>e. \<not> isError e) events) < 2"
      using at_most_one_load [OF assms(1) e] by simp
    then have "settled (foldl (handleEvent data1 data2) ?s events) = Some (Fin 0.1)"
      using run_without_second_load [of ?s events data1 data2] e by simp
    with False show ?thesis by (simp add: calculateAccurateSSIM_def)
  qed
  show ?thesis
    unfolding r by (simp add: calculateEnhancedSimilarity_def)
qed

theorem failed_image_gives_fail_soft_value_witness:
  "distinct (map imageOf [Load1, Error2]) \<and> (\<exists>e \<in> set [Load1, Error2]. isError e) \<and>
   calculateAccurateSSIM True True [1, 2, 3, 255] [4, 5, 6, 255] [Load1, Error2] = Some (Fin 0.1)"
  using failed_image_gives_fail_soft_value [of "[Load1, Error2]" True True "[1, 2, 3, 255]" "[4, 5, 6, 255]" "[]" "[]"]
  by simp

section \<open>Arithmetic with NaN and sums of finite numbers\<close>

lemma plus_NaN_right: "a + NaN = NaN" by (cases a) auto
lemma plus_NaN_left: "NaN + a = NaN" by (cases a) auto
lemma times_NaN_right: "a * NaN = NaN" by (cases a) auto
lemma times_NaN_left: "NaN * a = NaN" by (cases a) auto
lemma divide_NaN_right: "a / NaN = NaN" by (cases a) auto
lemma divide_NaN_left: "NaN / a = NaN" by (cases a) auto
lemma minus_NaN_right: "a - NaN = NaN" by (simp add: minus_jsnum_def plus_NaN_right)
lemma minus_NaN_left: "NaN - a = NaN" by (simp add: minus_jsnum_def plus_NaN_left)

lemmas NaN_absorbs = plus_NaN_right plus_NaN_left times_NaN_right times_NaN_left
  divide_NaN_right divide_NaN_left minus_NaN_right minus_NaN_left

lemma skewness_NaN_propagates:
  "length features1 = length features2 \<Longrightarrow> skewnessOf features1 = NaN \<Longrightarrow>
   calculateAccurateStructuralSimilarity features1 features2 = NaN"
  by (simp add: calculateAccurateStructuralSimilarity_def Let_def NaN_absorbs)

lemma skewness_constant_pair: "skewnessOf [Fin 1, Fin 1] = NaN"
  by (simp add: skewnessOf_def varianceOf_def meanOf_def reduce_sum_def len_def
      zero_jsnum_def minus_jsnum_def)

text \<open>
  Claim C1. The three metrics are finite numbers from 0 to 1 for every pair of inputs,
  the statistical metric also for a vector without variance. The code does not keep
  it: on two equal constant vectors the variance is 0, the skewness is 0 / 0, and the
  statistical metric is NaN.
\<close>

theorem statistical_metric_of_constant_vectors:
  "calculateAccurateStructuralSimilarity [Fin 1, Fin 1] [Fin 1, Fin 1] = NaN \<and>
   \<not> isFinite (calculateAccurateStructuralSimilarity [Fin 1, Fin 1] [Fin 1, Fin 1]) \<and>
   \<not> calculateAccurateStructuralSimilarity [Fin 1, Fin 1] [Fin 1, Fin 1] \<le> 1 \<and>
   \<not> 0 \<le> calculateAccurateStructuralSimilarity [Fin 1, Fin 1] [Fin 1, Fin 1]"
  by (simp add: skewness_NaN_propagates skewness_constant_pair zero_jsnum_def one_jsnum_def)

lemma foldl_plus_Fin:
  "(\<And>v. v \<in> set xs \<Longrightarrow> f v = Fin (g v)) \<Longrightarrow>
   foldl (\<lambda>sum val. sum + f val) (Fin a) xs = Fin (a + sum_list (map g xs))"
proof (induction xs arbitrary: a)
  case Nil
  then show ?case by simp
next
  case (Cons x xs)
  have "f x = Fin (g x)" using Cons.prems by simp
  moreover have "foldl (\<lambda>sum val. sum + f val) (Fin (a + g x)) xs
      = Fin (a + g x + sum_list (map g xs))"
    using Cons.prems by (intro Cons.IH) simp
  ultimately show ?case by (simp add: add.assoc)
qed

lemma reduce_sum_Fin:
  "(\<And>v. v \<in> set xs \<Longrightarrow> f v = Fin (g v)) \<Longrightarrow> reduce_sum f xs = Fin (sum_list (map g xs))"
  using foldl_plus_Fin [of xs f g 0] by (simp add: reduce_sum_def zero_jsnum_def)

lemma zip_index_nth: "(v, i) \<in> set (zip xs [0..<length xs]) \<Longrightarrow> i < length xs \<and> xs ! i = v"
  by (auto simp: set_zip)

lemma reduce_sum_i_eq:
  "reduce_sum_i f xs = reduce_sum (\<lambda>(val, i). f val i) (zip xs [0..<length xs])"
  by (simp add: reduce_sum_i_def reduce_sum_def case_prod_unfold)

lemma reduce_sum_map: "reduce_sum f (map h xs) = reduce_sum (\<lambda>x. f (h x)) xs"
  by (simp add: reduce_sum_def foldl_map)

lemma reduce_sum_cong:
  "(\<And>v. v \<in> set xs \<Longrightarrow> f v = g v) \<Longrightarrow> reduce_sum f xs = reduce_sum g xs"
  unfolding reduce_sum_def by (rule foldl_cong) auto

lemma reduce_sum_i_self:
  "reduce_sum_i (\<lambda>val i. F val (elemAt xs i)) xs = reduce_sum (\<lambda>val. F val val) xs"
proof -
  have "reduce_sum_i (\<lambda>val i. F val (elemAt xs i)) xs
      = reduce_sum (\<lambda>(val, i). F val val) (zip xs [0..<length xs])"
    unfolding reduce_sum_i_eq
    by (rule reduce_sum_cong) (auto simp: elemAt_def dest: zip_index_nth)
  also have "\<dots> = reduce_sum (\<lambda>val. F val val) (map fst (zip xs [0..<length xs]))"
    unfolding reduce_sum_map by (simp add: case_prod_unfold)
  also have "map fst (zip xs [0..<length xs]) = xs"
    by simp
  finally show ?thesis .
qed

lemma pow2_times: "pow2 a = a * a"
  by (cases a) auto

section \<open>Properties of the structural similarity\<close>

lemma pixelOffsets_in_range:
  assumes "4 dvd length d" and "i \<in> set (pixelOffsets d)"
  shows "i + 3 < length d"
proof -
  from assms(1) obtain q where q: "length d = 4 * q" by (auto simp: dvd_def)
  from assms(2) obtain k where k: "i = 4 * k" "k < (length d + 3) div 4"
    by (auto simp: pixelOffsets_def)
  from k(2) q have "k < q" by simp
  with k(1) q show ?thesis by simp
qed

lemma luma_finite: "i + 3 < length d \<Longrightarrow> isFinite (luma d i)"
  by (simp add: luma_def byteAt_def)

lemma gray1Of_finite:
  assumes "4 dvd length d"
  shows "\<exists>gs. gray1Of d = map Fin gs \<and> length gs = length (pixelOffsets d)"
proof -
  have "\<forall>i \<in> set (pixelOffsets d). \<exists>g. luma d i = Fin g"
    using pixelOffsets_in_range [OF assms] luma_finite isFinite_iff by blast
  then obtain h where h: "\<And>i. i \<in> set (pixelOffsets d) \<Longrightarrow> luma d i = Fin (h i)"
    by metis
  then have "gray1Of d = map Fin (map h (pixelOffsets d))"
    by (simp add: gray1Of_def)
  then show ?thesis by (metis length_map)
qed

lemma pixelOffsets_nonempty: "d \<noteq> [] \<Longrightarrow> pixelOffsets d \<noteq> []"
  by (cases d) (auto simp: pixelOffsets_def)

lemma mean_Fin:
  "gs \<noteq> [] \<Longrightarrow>
   reduce_sum (\<lambda>val. val) (map Fin gs) / len (map Fin gs) = Fin (sum_list gs / real (length gs))"
  unfolding reduce_sum_map
  using reduce_sum_Fin [of gs "\<lambda>x. Fin x" "\<lambda>x. x"]
  by (auto simp: len_def)

lemma sqdev_Fin:
  "gs \<noteq> [] \<Longrightarrow>
   reduce_sum (\<lambda>val. pow2 (val - Fin m)) (map Fin gs) / len (map Fin gs)
     = Fin (sum_list (map (\<lambda>x. (x - m) * (x - m)) gs) / real (length gs))"
  unfolding reduce_sum_map
  using reduce_sum_Fin [of gs "\<lambda>x. pow2 (Fin x - Fin m)" "\<lambda>x. (x - m) * (x - m)"]
  by (auto simp: len_def minus_jsnum_def)

lemma covar_self:
  "reduce_sum_i (\<lambda>val i. (val - M) * (elemAt xs i - M)) xs = reduce_sum (\<lambda>val. pow2 (val - M)) xs"
  using reduce_sum_i_self [of "\<lambda>a b. (a - M) * (b - M)" xs] by (simp add: pow2_times)

lemma sum_squares_nonneg: "0 \<le> sum_list (map (\<lambda>x. (x - m) * (x - m)) gs)" for m :: real
  by (rule sum_list_nonneg) auto

lemma ssim_formula_identical:
  fixes m v :: real
  assumes "0 \<le> v"
  shows "(if 0 < (pow2 (Fin m) + pow2 (Fin m) + pow2 (Fin 0.01 * Fin 255))
                  * (Fin v + Fin v + pow2 (Fin 0.03 * Fin 255))
          then (Fin 2 * Fin m * Fin m + pow2 (Fin 0.01 * Fin 255))
                 * (Fin 2 * Fin v + pow2 (Fin 0.03 * Fin 255))
               / ((pow2 (Fin m) + pow2 (Fin m) + pow2 (Fin 0.01 * Fin 255))
                  * (Fin v + Fin v + pow2 (Fin 0.03 * Fin 255)))
          else 0) = Fin 1"
proof -
  define c1 :: real where "c1 = 0.01 * 255 * (0.01 * 255)"
  define c2 :: real where "c2 = 0.03 * 255 * (0.03 * 255)"
  define D where "D = (m * m + m * m + c1) * (v + v + c2)"
  have c: "0 < c1" "0 < c2" by (simp_all add: c1_def c2_def)
  have "0 < m * m + m * m + c1" using c by (intro add_nonneg_pos) simp_all
  moreover have "0 < v + v + c2" using c assms by (intro add_nonneg_pos) simp_all
  ultimately have D: "0 < D" unfolding D_def by (rule mult_pos_pos)
  have den: "(pow2 (Fin m) + pow2 (Fin m) + pow2 (Fin 0.01 * Fin 255))
                  * (Fin v + Fin v + pow2 (Fin 0.03 * Fin 255)) = Fin D"
    by (simp add: D_def c1_def c2_def)
  have num: "(Fin 2 * Fin m * Fin m + pow2 (Fin 0.01 * Fin 255))
                 * (Fin 2 * Fin v + pow2 (Fin 0.03 * Fin 255)) = Fin D"
    by (simp add: D_def c1_def c2_def algebra_simps)
  show ?thesis
    unfolding den num using D by (simp add: zero_jsnum_def)
qed

text \<open>
  Claim C6. For the pixel data of an image compared with itself (a non-empty array of
  whole pixels), the single-window SSIM of the two grey arrays is 1 in exact arithmetic,
  and the value clamped to [0,1], before the sharpening, is at or above 0.99.
\<close>

theorem identical_images_structural_similarity:
  assumes "data \<noteq> []" and "4 dvd length data"
  shows "ssimOf data data = Fin 1 \<and> clampedSSIM data data = Fin 1 \<and>
         Fin 0.99 \<le> clampedSSIM data data"
proof -
  obtain gs where gr: "gray1Of data = map Fin gs" and l: "length gs = length (pixelOffsets data)"
    using gray1Of_finite [OF assms(2)] by blast
  have ne: "gs \<noteq> []" using l pixelOffsets_nonempty [OF assms(1)] by auto
  have g2: "gray2Of data data = gray1Of data"
    by (simp add: gray2Of_def gray1Of_def)
  define m where "m = sum_list gs / real (length gs)"
  define v where "v = sum_list (map (\<lambda>x. (x - m) * (x - m)) gs) / real (length gs)"
  have v0: "0 \<le> v" unfolding v_def by (intro divide_nonneg_nonneg sum_squares_nonneg) simp
  have mm: "reduce_sum (\<lambda>val. val) (map Fin gs) / len (map Fin gs) = Fin m"
    unfolding m_def by (rule mean_Fin [OF ne])
  have vv: "reduce_sum (\<lambda>val. pow2 (val - Fin m)) (map Fin gs) / len (map Fin gs) = Fin v"
    unfolding v_def by (rule sqdev_Fin [OF ne])
  have s: "ssimOf data data = Fin 1"
    unfolding ssimOf_def Let_def g2 gr mm covar_self vv
    by (rule ssim_formula_identical [OF v0])
  then show ?thesis
    by (simp add: clampedSSIM_def zero_jsnum_def one_jsnum_def)
qed

theorem identical_images_structural_similarity_witness:
  "[10, 20, 30, 255] \<noteq> ([] :: 8 word list) \<and> 4 dvd length [10, 20, 30, 255 :: 8 word] \<and>
   clampedSSIM [10, 20, 30, 255] [10, 20, 30, 255] = Fin 1 \<and>
   Fin 0.99 \<le> clampedSSIM [10, 20, 30, 255] [10, 20, 30, 255]"
proof -
  have "length [10, 20, 30, 255 :: 8 word] = 4" by simp
  then have d: "4 dvd length [10, 20, 30, 255 :: 8 word]" by (simp only: dvd_refl)
  have n: "[10, 20, 30, 255] \<noteq> ([] :: 8 word list)" by simp
  from identical_images_structural_similarity [OF n d] n d show ?thesis by blast
qed

section \<open>Values of the rounding\<close>

lemma rne_near: "\<bar>y - of_int k\<bar> < 1 / 2 \<Longrightarrow> rne y = k"
proof -
  assume a: "\<bar>y - of_int k\<bar> < 1 / 2"
  show ?thesis
  proof (cases "of_int k \<le> y")
    case True
    with a have "\<lfloor>y\<rfloor> = k" by (simp add: floor_eq_iff abs_less_iff)
    with a True show ?thesis by (simp add: rne_def Let_def abs_less_iff)
  next
    case False
    with a have f: "\<lfloor>y\<rfloor> = k - 1" by (simp add: floor_eq_iff abs_less_iff)
    with a False show ?thesis by (simp add: rne_def Let_def abs_less_iff)
  qed
qed

lemma rne_tie: "y = of_int f + 1 / 2 \<Longrightarrow> rne y = (if even f then f else f + 1)"
proof -
  assume y: "y = of_int f + 1 / 2"
  then have "\<lfloor>y\<rfloor> = f" by (simp add: floor_eq_iff)
  with y show ?thesis by (simp add: rne_def Let_def)
qed

lemma binade_eq:
  assumes "2 powi e \<le> \<bar>x\<bar>" and "\<bar>x\<bar> < 2 powi (e + 1)"
  shows "binade x = e"
proof -
  have z: "(0::real) < 2 powi e" by (simp add: zero_less_power_int)
  with assms(1) have p: "0 < \<bar>x\<bar>" by linarith
  have "(2::real) powr of_int e \<le> \<bar>x\<bar>" using assms(1) by (simp add: powr_real_of_int')
  then have 1: "of_int e \<le> log 2 \<bar>x\<bar>" using p by (simp add: le_log_iff)
  have "(2::real) powr of_int (e + 1) = 2 powi (e + 1)"
    using powr_real_of_int' [of "2::real" "e + 1"] by simp
  with assms(2) have "\<bar>x\<bar> < (2::real) powr of_int (e + 1)" by simp
  then have "log 2 \<bar>x\<bar> < of_int (e + 1)" using p by (subst log_less_iff) simp_all
  then have 2: "log 2 \<bar>x\<bar> < of_int e + 1" by simp
  from 1 2 show ?thesis unfolding binade_def by (simp add: floor_eq_iff)
qed

lemma double_rne:
  assumes "2 powi e \<le> \<bar>x\<bar>" and "\<bar>x\<bar> < 2 powi (e + 1)" and "- 1022 \<le> e"
    and "u = 2 powi (e - 52)" and "rne (x / u) = k"
  shows "double x = of_int k * u"
proof -
  have b: "binade x = e" using assms(1,2) by (rule binade_eq)
  then have ue: "ulpExponent x = e - 52" using assms(3) by (simp add: ulpExponent_def)
  have z: "(0::real) < 2 powi e" by (simp add: zero_less_power_int)
  with assms(1) have "0 < \<bar>x\<bar>" by linarith
  then have "x \<noteq> 0" by simp
  then show ?thesis
    unfolding double_def ue assms(4) [symmetric] using assms(5) by simp
qed

lemma rnd_rne:
  assumes "2 powi e \<le> \<bar>x\<bar>" and "\<bar>x\<bar> < 2 powi (e + 1)" and "- 1022 \<le> e"
    and "u = 2 powi (e - 52)" and "rne (x / u) = k" and "\<bar>of_int k * u\<bar> < 2 powi 1024"
  shows "rnd (Fin x) = Fin (of_int k * u)"
  using double_rne [OF assms(1-5)] assms(6) by simp

lemma rnd_eq:
  assumes "2 powi e \<le> \<bar>x\<bar>" and "\<bar>x\<bar> < 2 powi (e + 1)" and "- 1022 \<le> e"
    and "u = 2 powi (e - 52)" and "\<bar>x / u - of_int k\<bar> < 1 / 2"
    and "\<bar>of_int k * u\<bar> < 2 powi 1024"
  shows "rnd (Fin x) = Fin (of_int k * u)"
  using assms(1-4) rne_near [OF assms(5)] assms(6) by (rule rnd_rne)

lemma rnd_eq_tie:
  assumes "2 powi e \<le> \<bar>x\<bar>" and "\<bar>x\<bar> < 2 powi (e + 1)" and "- 1022 \<le> e"
    and "u = 2 powi (e - 52)" and "x / u = of_int f + 1 / 2"
    and "k = (if even f then f else f + 1)"
    and "\<bar>of_int k * u\<bar> < 2 powi 1024"
  shows "rnd (Fin x) = Fin (of_int k * u)"
proof -
  have "rne (x / u) = k" using rne_tie [OF assms(5)] assms(6) by simp
  with assms(1-4) show ?thesis using assms(7) by (rule rnd_rne)
qed

lemma rnd_0: "rnd (Fin 0) = Fin 0"
  by (simp add: double_def)

text \<open>The roundings that the two evaluations below go through. Each value is checked
  against the definition: the binade of the argument, the unit in the last place and the
  distance to the chosen mantissa.\<close>

declare rnd.simps(1) [simp del]

lemma rnd_1: "rnd (Fin 1) = Fin 1"
  using rnd_eq [of "0" "1" "1 / 4503599627370496" "4503599627370496"] by simp

lemma rnd_2: "rnd (Fin 4) = Fin 4"
  using rnd_eq [of "2" "4" "1 / 1125899906842624" "4503599627370496"] by simp

lemma rnd_3: "rnd (Fin 2) = Fin 2"
  using rnd_eq [of "1" "2" "1 / 2251799813685248" "4503599627370496"] by simp

lemma rnd_4: "rnd (Fin (- 1)) = Fin (- 1)"
  using rnd_eq [of "0" "- 1" "1 / 4503599627370496" "- 4503599627370496"] by simp

lemma rnd_sqrt_6: "rnd (Fin (sqrt 2)) = Fin (6369051672525773 / 4503599627370496)"
proof -
  have lo: "(6369051672525773 - 1 / 2) / 4503599627370496 < sqrt 2"
    by (rule real_less_rsqrt) (simp add: power2_eq_square)
  have hi: "sqrt 2 < (6369051672525773 + 1 / 2) / 4503599627370496"
    by (rule real_less_lsqrt) (simp_all add: power2_eq_square)
  have b1: "1 \<le> sqrt 2"
    by (rule real_le_rsqrt) (simp add: power2_eq_square)
  have b2: "sqrt 2 < 2"
    by (rule real_less_lsqrt) (simp_all add: power2_eq_square)
  have "- (1 / 2) < sqrt 2 * 4503599627370496 - 6369051672525773" "sqrt 2 * 4503599627370496 - 6369051672525773 < 1 / 2"
    using lo hi by (simp_all add: field_simps)
  then have "\<bar>sqrt 2 * 4503599627370496 - 6369051672525773\<bar> < 1 / 2"
    by linarith
  then have "\<bar>sqrt 2 / (1 / 4503599627370496) - of_int 6369051672525773\<bar> < 1 / 2"
    by simp
  from rnd_eq [of "0" "sqrt 2" "1 / 4503599627370496" "6369051672525773", OF _ _ _ _ this] b1 b2
  show ?thesis by simp
qed

lemma rnd_7: "rnd (Fin (40564819207303346393761349247529 / 20282409603651670423947251286016)) = Fin (4503599627370497 / 2251799813685248)"
  using rnd_eq [of "1" "40564819207303346393761349247529 / 20282409603651670423947251286016" "1 / 2251799813685248" "4503599627370497"] by simp

lemma rnd_8: "rnd (Fin (4503599627370496 / 4503599627370497)) = Fin (4503599627370495 / 4503599627370496)"
  using rnd_eq [of "- 1" "4503599627370496 / 4503599627370497" "1 / 9007199254740992" "9007199254740990"] by simp

lemma rnd_9: "rnd (Fin (9007199254740991 / 4503599627370496)) = Fin (9007199254740991 / 4503599627370496)"
  using rnd_eq [of "0" "9007199254740991 / 4503599627370496" "1 / 4503599627370496" "9007199254740991"] by simp

lemma rnd_10: "rnd (Fin (9007199254740991 / 9007199254740992)) = Fin (9007199254740991 / 9007199254740992)"
  using rnd_eq [of "- 1" "9007199254740991 / 9007199254740992" "1 / 9007199254740992" "9007199254740991"] by simp

lemma rnd_11: "rnd (Fin (81129638414606663681390495662081 / 81129638414606681695789005144064)) = Fin (4503599627370495 / 4503599627370496)"
  using rnd_eq [of "- 1" "81129638414606663681390495662081 / 81129638414606681695789005144064" "1 / 9007199254740992" "9007199254740990"] by simp

lemma rnd_13: "rnd (Fin 5) = Fin 5"
  using rnd_eq [of "2" "5" "1 / 1125899906842624" "5629499534213120"] by simp

lemma rnd_14: "rnd (Fin 6) = Fin 6"
  using rnd_eq [of "2" "6" "1 / 1125899906842624" "6755399441055744"] by simp

lemma rnd_15: "rnd (Fin (3 / 2)) = Fin (3 / 2)"
  using rnd_eq [of "0" "3 / 2" "1 / 4503599627370496" "6755399441055744"] by simp

lemma rnd_sqrt_16: "rnd (Fin (sqrt (3 / 2))) = Fin (2757880273211543 / 2251799813685248)"
proof -
  have lo: "(5515760546423086 - 1 / 2) / 4503599627370496 < sqrt (3 / 2)"
    by (rule real_less_rsqrt) (simp add: power2_eq_square)
  have hi: "sqrt (3 / 2) < (5515760546423086 + 1 / 2) / 4503599627370496"
    by (rule real_less_lsqrt) (simp_all add: power2_eq_square)
  have b1: "1 \<le> sqrt (3 / 2)"
    by (rule real_le_rsqrt) (simp add: power2_eq_square)
  have b2: "sqrt (3 / 2) < 2"
    by (rule real_less_lsqrt) (simp_all add: power2_eq_square)
  have "- (1 / 2) < sqrt (3 / 2) * 4503599627370496 - 5515760546423086" "sqrt (3 / 2) * 4503599627370496 - 5515760546423086 < 1 / 2"
    using lo hi by (simp_all add: field_simps)
  then have "\<bar>sqrt (3 / 2) * 4503599627370496 - 5515760546423086\<bar> < 1 / 2"
    by linarith
  then have "\<bar>sqrt (3 / 2) / (1 / 4503599627370496) - of_int 5515760546423086\<bar> < 1 / 2"
    by simp
  from rnd_eq [of "0" "sqrt (3 / 2)" "1 / 4503599627370496" "5515760546423086", OF _ _ _ _ this] b1 b2
  show ?thesis by simp
qed

lemma rnd_17: "rnd (Fin (- (2251799813685248 / 2757880273211543))) = Fin (- (7354347395230783 / 9007199254740992))"
  using rnd_eq [of "- 1" "- (2251799813685248 / 2757880273211543)" "1 / 9007199254740992" "- 7354347395230783"] by simp

lemma rnd_18: "rnd (Fin (4503599627370496 / 2757880273211543)) = Fin (7354347395230783 / 4503599627370496)"
  using rnd_eq [of "0" "4503599627370496 / 2757880273211543" "1 / 4503599627370496" "7354347395230783"] by simp

lemma rnd_19: "rnd (Fin 3) = Fin 3"
  using rnd_eq [of "1" "3" "1 / 2251799813685248" "6755399441055744"] by simp

lemma rnd_20: "rnd (Fin 12) = Fin 12"
  using rnd_eq [of "3" "12" "1 / 562949953421312" "6755399441055744"] by simp

lemma rnd_21: "rnd (Fin (- 3)) = Fin (- 3)"
  using rnd_eq [of "1" "- 3" "1 / 2251799813685248" "- 6755399441055744"] by simp

lemma rnd_22: "rnd (Fin 9) = Fin 9"
  using rnd_eq [of "3" "9" "1 / 562949953421312" "5066549580791808"] by simp

lemma rnd_23: "rnd (Fin 36) = Fin 36"
  using rnd_eq [of "5" "36" "1 / 140737488355328" "5066549580791808"] by simp

lemma rnd_24: "rnd (Fin 45) = Fin 45"
  using rnd_eq [of "5" "45" "1 / 140737488355328" "6333186975989760"] by simp

lemma rnd_25: "rnd (Fin 54) = Fin 54"
  using rnd_eq [of "5" "54" "1 / 140737488355328" "7599824371187712"] by simp

lemma rnd_26: "rnd (Fin (27 / 2)) = Fin (27 / 2)"
  using rnd_eq [of "3" "27 / 2" "1 / 562949953421312" "7599824371187712"] by simp

lemma rnd_sqrt_27: "rnd (Fin (sqrt (27 / 2))) = Fin (4136820409817315 / 1125899906842624)"
proof -
  have lo: "(8273640819634630 - 1 / 2) / 2251799813685248 < sqrt (27 / 2)"
    by (rule real_less_rsqrt) (simp add: power2_eq_square)
  have hi: "sqrt (27 / 2) < (8273640819634630 + 1 / 2) / 2251799813685248"
    by (rule real_less_lsqrt) (simp_all add: power2_eq_square)
  have b1: "2 \<le> sqrt (27 / 2)"
    by (rule real_le_rsqrt) (simp add: power2_eq_square)
  have b2: "sqrt (27 / 2) < 4"
    by (rule real_less_lsqrt) (simp_all add: power2_eq_square)
  have "- (1 / 2) < sqrt (27 / 2) * 2251799813685248 - 8273640819634630" "sqrt (27 / 2) * 2251799813685248 - 8273640819634630 < 1 / 2"
    using lo hi by (simp_all add: field_simps)
  then have "\<bar>sqrt (27 / 2) * 2251799813685248 - 8273640819634630\<bar> < 1 / 2"
    by linarith
  then have "\<bar>sqrt (27 / 2) / (1 / 2251799813685248) - of_int 8273640819634630\<bar> < 1 / 2"
    by simp
  from rnd_eq [of "1" "sqrt (27 / 2)" "1 / 2251799813685248" "8273640819634630", OF _ _ _ _ this] b1 b2
  show ?thesis by simp
qed

lemma rnd_28: "rnd (Fin (- (3377699720527872 / 4136820409817315))) = Fin (- (3677173697615391 / 4503599627370496))"
  using rnd_eq [of "- 1" "- (3377699720527872 / 4136820409817315)" "1 / 9007199254740992" "- 7354347395230782"] by simp

lemma rnd_29: "rnd (Fin (6755399441055744 / 4136820409817315)) = Fin (3677173697615391 / 2251799813685248)"
  using rnd_eq [of "0" "6755399441055744 / 4136820409817315" "1 / 4503599627370496" "7354347395230782"] by simp

lemma rnd_30: "rnd (Fin (27043212804868897690213217781153 / 40564819207303340847894502572032)) = Fin (3002399751580331 / 4503599627370496)"
  using rnd_eq [of "- 1" "27043212804868897690213217781153 / 40564819207303340847894502572032" "1 / 9007199254740992" "6004799503160662"] by simp

lemma rnd_31: "rnd (Fin (3002399751580331 / 4503599627370496)) = Fin (3002399751580331 / 4503599627370496)"
  using rnd_eq [of "- 1" "3002399751580331 / 4503599627370496" "1 / 9007199254740992" "6004799503160662"] by simp

lemma rnd_32: "rnd (Fin (27043212804868897690213217781153 / 10141204801825835211973625643008)) = Fin (3002399751580331 / 1125899906842624)"
  using rnd_eq [of "1" "27043212804868897690213217781153 / 10141204801825835211973625643008" "1 / 2251799813685248" "6004799503160662"] by simp

lemma rnd_33: "rnd (Fin (15011998757901655 / 4503599627370496)) = Fin (1876499844737707 / 562949953421312)"
  using rnd_eq_tie [of "1" "15011998757901655 / 4503599627370496" "1 / 2251799813685248" "7505999378950827" "7505999378950828"] by simp

lemma rnd_34: "rnd (Fin (18014398509481987 / 4503599627370496)) = Fin (4503599627370497 / 1125899906842624)"
  using rnd_eq [of "2" "18014398509481987 / 4503599627370496" "1 / 1125899906842624" "4503599627370497"] by simp

lemma rnd_35: "rnd (Fin (54086425609737802734773830793089 / 81129638414606681695789005144064)) = Fin (6004799503160663 / 9007199254740992)"
  using rnd_eq [of "- 1" "54086425609737802734773830793089 / 81129638414606681695789005144064" "1 / 9007199254740992" "6004799503160663"] by simp

lemma rnd_36: "rnd (Fin (6004799503160663 / 9007199254740992)) = Fin (6004799503160663 / 9007199254740992)"
  using rnd_eq [of "- 1" "6004799503160663 / 9007199254740992" "1 / 9007199254740992" "6004799503160663"] by simp

lemma rnd_37: "rnd (Fin (54086425609737802734773830793089 / 20282409603651670423947251286016)) = Fin (6004799503160663 / 2251799813685248)"
  using rnd_eq [of "1" "54086425609737802734773830793089 / 20282409603651670423947251286016" "1 / 2251799813685248" "6004799503160663"] by simp

lemma rnd_38: "rnd (Fin (30023997515803315 / 9007199254740992)) = Fin (7505999378950829 / 2251799813685248)"
  using rnd_eq [of "1" "30023997515803315 / 9007199254740992" "1 / 2251799813685248" "7505999378950829"] by simp

lemma rnd_39: "rnd (Fin (36028797018963979 / 9007199254740992)) = Fin (4503599627370497 / 1125899906842624)"
  using rnd_eq [of "2" "36028797018963979 / 9007199254740992" "1 / 1125899906842624" "4503599627370497"] by simp

lemma rnd_sqrt_40: "rnd (Fin (sqrt (4503599627370497 / 1125899906842624))) = Fin 2"
proof -
  have lo: "(4503599627370496 - 1 / 2) / 2251799813685248 < sqrt (4503599627370497 / 1125899906842624)"
    by (rule real_less_rsqrt) (simp add: power2_eq_square)
  have hi: "sqrt (4503599627370497 / 1125899906842624) < (4503599627370496 + 1 / 2) / 2251799813685248"
    by (rule real_less_lsqrt) (simp_all add: power2_eq_square)
  have b1: "2 \<le> sqrt (4503599627370497 / 1125899906842624)"
    by (rule real_le_rsqrt) (simp add: power2_eq_square)
  have b2: "sqrt (4503599627370497 / 1125899906842624) < 4"
    by (rule real_less_lsqrt) (simp_all add: power2_eq_square)
  have "- (1 / 2) < sqrt (4503599627370497 / 1125899906842624) * 2251799813685248 - 4503599627370496" "sqrt (4503599627370497 / 1125899906842624) * 2251799813685248 - 4503599627370496 < 1 / 2"
    using lo hi by (simp_all add: field_simps)
  then have "\<bar>sqrt (4503599627370497 / 1125899906842624) * 2251799813685248 - 4503599627370496\<bar> < 1 / 2"
    by linarith
  then have "\<bar>sqrt (4503599627370497 / 1125899906842624) / (1 / 2251799813685248) - of_int 4503599627370496\<bar> < 1 / 2"
    by simp
  from rnd_eq [of "1" "sqrt (4503599627370497 / 1125899906842624)" "1 / 2251799813685248" "4503599627370496", OF _ _ _ _ this] b1 b2
  show ?thesis by simp
qed

lemma rnd_41: "rnd (Fin (13521606402434447006519760082881 / 20282409603651670423947251286016)) = Fin (6004799503160661 / 9007199254740992)"
  using rnd_eq [of "- 1" "13521606402434447006519760082881 / 20282409603651670423947251286016" "1 / 9007199254740992" "6004799503160661"] by simp

lemma rnd_42: "rnd (Fin (6004799503160661 / 9007199254740992)) = Fin (6004799503160661 / 9007199254740992)"
  using rnd_eq [of "- 1" "6004799503160661 / 9007199254740992" "1 / 9007199254740992" "6004799503160661"] by simp

lemma rnd_43: "rnd (Fin (13521606402434447006519760082881 / 5070602400912917605986812821504)) = Fin (6004799503160661 / 2251799813685248)"
  using rnd_eq [of "1" "13521606402434447006519760082881 / 5070602400912917605986812821504" "1 / 2251799813685248" "6004799503160661"] by simp

lemma rnd_44: "rnd (Fin (30023997515803305 / 9007199254740992)) = Fin (3752999689475413 / 1125899906842624)"
  using rnd_eq [of "1" "30023997515803305 / 9007199254740992" "1 / 2251799813685248" "7505999378950826"] by simp

lemma rnd_45: "rnd (Fin (36028797018963965 / 9007199254740992)) = Fin (9007199254740991 / 2251799813685248)"
  using rnd_eq [of "1" "36028797018963965 / 9007199254740992" "1 / 2251799813685248" "9007199254740991"] by simp

lemma rnd_sqrt_46: "rnd (Fin (sqrt (9007199254740991 / 2251799813685248))) = Fin (9007199254740991 / 4503599627370496)"
proof -
  have lo: "(9007199254740991 - 1 / 2) / 4503599627370496 < sqrt (9007199254740991 / 2251799813685248)"
    by (rule real_less_rsqrt) (simp add: power2_eq_square)
  have hi: "sqrt (9007199254740991 / 2251799813685248) < (9007199254740991 + 1 / 2) / 4503599627370496"
    by (rule real_less_lsqrt) (simp_all add: power2_eq_square)
  have b1: "1 \<le> sqrt (9007199254740991 / 2251799813685248)"
    by (rule real_le_rsqrt) (simp add: power2_eq_square)
  have b2: "sqrt (9007199254740991 / 2251799813685248) < 2"
    by (rule real_less_lsqrt) (simp_all add: power2_eq_square)
  have "- (1 / 2) < sqrt (9007199254740991 / 2251799813685248) * 4503599627370496 - 9007199254740991" "sqrt (9007199254740991 / 2251799813685248) * 4503599627370496 - 9007199254740991 < 1 / 2"
    using lo hi by (simp_all add: field_simps)
  then have "\<bar>sqrt (9007199254740991 / 2251799813685248) * 4503599627370496 - 9007199254740991\<bar> < 1 / 2"
    by linarith
  then have "\<bar>sqrt (9007199254740991 / 2251799813685248) / (1 / 4503599627370496) - of_int 9007199254740991\<bar> < 1 / 2"
    by simp
  from rnd_eq [of "0" "sqrt (9007199254740991 / 2251799813685248)" "1 / 4503599627370496" "9007199254740991", OF _ _ _ _ this] b1 b2
  show ?thesis by simp
qed

lemma rnd_47: "rnd (Fin (9007199254740991 / 2251799813685248)) = Fin (9007199254740991 / 2251799813685248)"
  using rnd_eq [of "1" "9007199254740991 / 2251799813685248" "1 / 2251799813685248" "9007199254740991"] by simp

lemma rnd_48: "rnd (Fin (9007199254740994 / 9007199254740991)) = Fin (2251799813685249 / 2251799813685248)"
  using rnd_eq [of "0" "9007199254740994 / 9007199254740991" "1 / 4503599627370496" "4503599627370498"] by simp

lemma rnd_49: "rnd (Fin (4503599627370497 / 2251799813685248)) = Fin (4503599627370497 / 2251799813685248)"
  using rnd_eq [of "1" "4503599627370497 / 2251799813685248" "1 / 2251799813685248" "4503599627370497"] by simp

lemma rnd_50: "rnd (Fin (4503599627370497 / 4503599627370496)) = Fin (4503599627370497 / 4503599627370496)"
  using rnd_eq [of "0" "4503599627370497 / 4503599627370496" "1 / 4503599627370496" "4503599627370497"] by simp

lemma rnd_51: "rnd (Fin (20282409603651679431146506027009 / 20282409603651670423947251286016)) = Fin (2251799813685249 / 2251799813685248)"
  using rnd_eq [of "0" "20282409603651679431146506027009 / 20282409603651670423947251286016" "1 / 4503599627370496" "4503599627370498"] by simp

lemmas rounded_values = rnd_1
  rnd_2
  rnd_3
  rnd_4
  rnd_sqrt_6
  rnd_7
  rnd_8
  rnd_9
  rnd_10
  rnd_11
  rnd_13
  rnd_14
  rnd_15
  rnd_sqrt_16
  rnd_17
  rnd_18
  rnd_19
  rnd_20
  rnd_21
  rnd_22
  rnd_23
  rnd_24
  rnd_25
  rnd_26
  rnd_sqrt_27
  rnd_28
  rnd_29
  rnd_30
  rnd_31
  rnd_32
  rnd_33
  rnd_34
  rnd_35
  rnd_36
  rnd_37
  rnd_38
  rnd_39
  rnd_sqrt_40
  rnd_41
  rnd_42
  rnd_43
  rnd_44
  rnd_45
  rnd_sqrt_46
  rnd_47
  rnd_48
  rnd_49
  rnd_50
  rnd_51

section \<open>The cosine similarity on two inputs\<close>

lemmas cosine_unfold = reduce_sum_double_def reduce_sum_i_double_def len_def elemAt_def
  zero_jsnum_def one_jsnum_def minus_jsnum_def js_eq_def upt_rec rnd_0 rounded_values

lemma normalize_1:
  "normalizeFeatures [Fin 1, Fin 3] = [Fin (- 1), Fin 1]"
  by (simp add: normalizeFeatures_def Let_def cosine_unfold)

lemma normalize_2:
  "normalizeFeatures [Fin 0, Fin 1, Fin 3, Fin 0] = [Fin (- (7354347395230783 / 9007199254740992)), Fin 0, Fin (7354347395230783 / 4503599627370496), Fin (- (7354347395230783 / 9007199254740992))]"
  by (simp add: normalizeFeatures_def Let_def cosine_unfold)

lemma normalize_3:
  "normalizeFeatures [Fin 0, Fin 3, Fin 9, Fin 0] = [Fin (- (3677173697615391 / 4503599627370496)), Fin 0, Fin (3677173697615391 / 2251799813685248), Fin (- (3677173697615391 / 4503599627370496))]"
  by (simp add: normalizeFeatures_def Let_def cosine_unfold)

lemma cosine_self_1_3:
  "calculateAccurateCosineSimilarity [Fin 1, Fin 3] [Fin 1, Fin 3] = Fin (4503599627370495 / 4503599627370496)"
  by (simp add: calculateAccurateCosineSimilarity_def Let_def normalize_1 normalize_1 cosine_unfold)

lemma cosine_proportional:
  "calculateAccurateCosineSimilarity [Fin 0, Fin 1, Fin 3, Fin 0] [Fin 0, Fin 3, Fin 9, Fin 0] = Fin (2251799813685249 / 2251799813685248)"
  by (simp add: calculateAccurateCosineSimilarity_def Let_def normalize_2 normalize_3 cosine_unfold)

text \<open>
  Claim C4. The cosine similarity of a vector of nonzero variance with itself is exactly
  1, and the cosine similarity of two vectors of equal length lies in [0,1]. The code
  does not keep it. For [0, 1, 3, 0] and [0, 3, 9, 0] the rounded dot product is
  4.000000000000001 and the product of the rounded magnitudes 3.9999999999999996: the
  function returns 1.0000000000000004, above 1, since it does not clamp its result.
  For [1, 3] with itself it returns 0.9999999999999998.
\<close>

theorem cosine_similarity_out_of_range:
  "calculateAccurateCosineSimilarity [Fin 0, Fin 1, Fin 3, Fin 0] [Fin 0, Fin 3, Fin 9, Fin 0]
     = Fin (2251799813685249 / 2251799813685248) \<and>
   Fin 1 < calculateAccurateCosineSimilarity [Fin 0, Fin 1, Fin 3, Fin 0] [Fin 0, Fin 3, Fin 9, Fin 0] \<and>
   varianceOf [Fin 1, Fin 3] = Fin 1 \<and>
   calculateAccurateCosineSimilarity [Fin 1, Fin 3] [Fin 1, Fin 3]
     = Fin (4503599627370495 / 4503599627370496) \<and>
   calculateAccurateCosineSimilarity [Fin 1, Fin 3] [Fin 1, Fin 3] \<noteq> Fin 1"
proof -
  have v: "varianceOf [Fin 1, Fin 3] = Fin 1"
    by (simp add: varianceOf_def meanOf_def reduce_sum_def len_def zero_jsnum_def minus_jsnum_def)
  show ?thesis
    unfolding cosine_proportional cosine_self_1_3 v by simp
qed

section \<open>The reported percentage\<close>

text \<open>The engine rounds as the doubles do. For the scores 0, 0.1 and 0 and the style
  \<^verbatim>\<open>realistic\<close> the exact value of the percentage would be 3.5, which rounds to 4; the
  doubles give 3.4999999999999996 and the engine reports 3.\<close>

lemma rnd_101: "rnd (Fin (1 / 10)) = Fin (3602879701896397 / 36028797018963968)"
  using rnd_eq [of "- 4" "1 / 10" "1 / 72057594037927936" "7205759403792794"] by simp

lemma rnd_102: "rnd (Fin (1 / 2)) = Fin (1 / 2)"
  using rnd_eq [of "- 1" "1 / 2" "1 / 9007199254740992" "4503599627370496"] by simp

lemma rnd_103: "rnd (Fin (7 / 20)) = Fin (3152519739159347 / 9007199254740992)"
  using rnd_eq [of "- 2" "7 / 20" "1 / 18014398509481984" "6305039478318694"] by simp

lemma rnd_104: "rnd (Fin (11358149378044935347338468172759 / 324518553658426726783156020576256)) = Fin (5044031582654955 / 144115188075855872)"
  using rnd_eq [of "- 5" "11358149378044935347338468172759 / 324518553658426726783156020576256" "1 / 144115188075855872" "5044031582654955"] by simp

lemma rnd_105: "rnd (Fin (5044031582654955 / 144115188075855872)) = Fin (5044031582654955 / 144115188075855872)"
  using rnd_eq [of "- 5" "5044031582654955 / 144115188075855872" "1 / 144115188075855872" "5044031582654955"] by simp

lemma rnd_106: "rnd (Fin (3 / 20)) = Fin (5404319552844595 / 36028797018963968)"
  using rnd_eq [of "- 3" "3 / 20" "1 / 36028797018963968" "5404319552844595"] by simp

lemma rnd_107: "rnd (Fin (126100789566373875 / 36028797018963968)) = Fin (7881299347898367 / 2251799813685248)"
  using rnd_eq [of "1" "126100789566373875 / 36028797018963968" "1 / 2251799813685248" "7881299347898367"] by simp

lemma rnd_109: "rnd (Fin (7881299347898367 / 2251799813685248)) = Fin (7881299347898367 / 2251799813685248)"
  using rnd_eq [of "1" "7881299347898367 / 2251799813685248" "1 / 2251799813685248" "7881299347898367"] by simp

lemmas rounded_grading_values = rnd_101
  rnd_102
  rnd_103
  rnd_104
  rnd_105
  rnd_106
  rnd_107
  rnd_109

lemma reported_percentage_in_doubles:
  "similarity (generateEnhancedGrade
      \<lparr>cosineSimilarity = Fin 0, ssimScore = num 0.1, structuralSimilarity = Fin 0\<rparr>
      \<lparr>style = ''realistic'', confidence = Fin 0.9\<rparr> defaultGradingConfig) = Fin 3"
  by (simp add: similarity_generateEnhancedGrade finalPercentage_def combinedScore_def
      styleAdjustment_def lookupAdjustment_def defaultGradingConfig_def num_def Let_def
      zero_jsnum_def rnd_0 rounded_values rounded_grading_values)

lemma combinedScore_NaN: "structuralSimilarity s = NaN \<Longrightarrow> combinedScore s = NaN"
  by (simp add: combinedScore_def NaN_absorbs)

lemma finalPercentage_NaN_score:
  "structuralSimilarity s = NaN \<Longrightarrow> finalPercentage s st config = NaN"
  by (simp add: finalPercentage_def combinedScore_NaN NaN_absorbs zero_jsnum_def)

lemma finalPercentage_NaN_adjustment:
  "toNumber (styleAdjustment config st) = NaN \<Longrightarrow> finalPercentage s st config = NaN"
  by (simp add: finalPercentage_def NaN_absorbs zero_jsnum_def)

lemma inherited_adjustment:
  "key \<in> set objectPrototypeKeys \<Longrightarrow>
   toNumber (styleAdjustment config \<lparr>style = key, confidence = c\<rparr>) = NaN"
  by (auto simp: styleAdjustment_def lookupAdjustment_def objectPrototypeKeys_def Let_def)

lemma statistical_constant_pair:
  "calculateAccurateStructuralSimilarity [Fin 1, Fin 1] [Fin 1, Fin 1] = NaN"
  by (simp add: skewness_NaN_propagates skewness_constant_pair)

lemma gradeBand_NaN: "fst (gradeBand config NaN) = ''F''"
  by (cases "thr_Aplus (thresholds config)"; cases "thr_A (thresholds config)";
      cases "thr_B (thresholds config)"; cases "thr_C (thresholds config)";
      cases "thr_D (thresholds config)") (simp_all add: gradeBand_def)

text \<open>
  Claim C2. For all scores, every style and every configuration, the engine combines the
  scores with the weights 0.5, 0.35 and 0.15, multiplies by 100 and by the style
  adjustment, clamps and rounds, and the percentage it reports is an integer from 0 to
  100. The code does not keep it. For the style \<^verbatim>\<open>constructor\<close> the multiplier read
  from the configuration is a function that every object inherits; the product is NaN,
  the clamp lets NaN through, and the engine reports NaN. It reports NaN as well for the
  scores of two images whose embedding is the constant vector [1, 1], where the
  statistical metric is NaN.
\<close>

theorem reported_percentage_not_a_number:
  "similarity (generateEnhancedGrade
      \<lparr>cosineSimilarity = Fin 0.5, ssimScore = Fin 0.5, structuralSimilarity = Fin 0.5\<rparr>
      \<lparr>style = ''constructor'', confidence = Fin 0.9\<rparr> defaultGradingConfig) = NaN \<and>
   similarity (generateEnhancedGrade
      \<lparr>cosineSimilarity = Fin 0, ssimScore = Fin 1,
       structuralSimilarity = calculateAccurateStructuralSimilarity [Fin 1, Fin 1] [Fin 1, Fin 1]\<rparr>
      \<lparr>style = ''abstract'', confidence = Fin 0.7\<rparr> defaultGradingConfig) = NaN"
proof -
  have "''constructor'' \<in> set objectPrototypeKeys" by (simp add: objectPrototypeKeys_def)
  then have 1: "finalPercentage s \<lparr>style = ''constructor'', confidence = Fin 0.9\<rparr> config = NaN"
    for s config
    by (intro finalPercentage_NaN_adjustment inherited_adjustment)
  have 2: "finalPercentage
      \<lparr>cosineSimilarity = Fin 0, ssimScore = Fin 1,
       structuralSimilarity = calculateAccurateStructuralSimilarity [Fin 1, Fin 1] [Fin 1, Fin 1]\<rparr>
      st config = NaN" for st config
    by (rule finalPercentage_NaN_score) (simp add: statistical_constant_pair)
  show ?thesis
    by (simp add: similarity_generateEnhancedGrade 1 2)
qed

text \<open>
  Claim C8. A configuration whose thresholds are all 0 gives the grade A+ for all scores
  and every style. The code does not keep it. When the percentage is NaN, every
  comparison with a threshold is false and the grade is F: so for the scores of two
  images whose embedding is the constant vector [1, 1], and so for the style
  \<^verbatim>\<open>toString\<close>.
\<close>

theorem zero_thresholds_grade_F:
  "zeroThresholds (defaultGradingConfig\<lparr>thresholds := \<lparr>thr_Aplus = Fin 0, thr_A = Fin 0,
      thr_B = Fin 0, thr_C = Fin 0, thr_D = Fin 0, thr_F = Fin 0\<rparr>\<rparr>) \<and>
   grade (generateEnhancedGrade
      \<lparr>cosineSimilarity = Fin 0, ssimScore = Fin 1,
       structuralSimilarity = calculateAccurateStructuralSimilarity [Fin 1, Fin 1] [Fin 1, Fin 1]\<rparr>
      \<lparr>style = ''abstract'', confidence = Fin 0.7\<rparr>
      (defaultGradingConfig\<lparr>thresholds := \<lparr>thr_Aplus = Fin 0, thr_A = Fin 0,
         thr_B = Fin 0, thr_C = Fin 0, thr_D = Fin 0, thr_F = Fin 0\<rparr>\<rparr>)) = ''F'' \<and>
   grade (generateEnhancedGrade
      \<lparr>cosineSimilarity = Fin 0.5, ssimScore = Fin 0.5, structuralSimilarity = Fin 0.5\<rparr>
      \<lparr>style = ''toString'', confidence = Fin 0.9\<rparr>
      (defaultGradingConfig\<lparr>thresholds := \<lparr>thr_Aplus = Fin 0, thr_A = Fin 0,
         thr_B = Fin 0, thr_C = Fin 0, thr_D = Fin 0, thr_F = Fin 0\<rparr>\<rparr>)) = ''F''"
proof -
  have "''toString'' \<in> set objectPrototypeKeys" by (simp add: objectPrototypeKeys_def)
  then have 1: "finalPercentage s \<lparr>style = ''toString'', confidence = Fin 0.9\<rparr> config = NaN"
    for s config
    by (intro finalPercentage_NaN_adjustment inherited_adjustment)
  have 2: "finalPercentage
      \<lparr>cosineSimilarity = Fin 0, ssimScore = Fin 1,
       structuralSimilarity = calculateAccurateStructuralSimilarity [Fin 1, Fin 1] [Fin 1, Fin 1]\<rparr>
      st config = NaN" for st config
    by (rule finalPercentage_NaN_score) (simp add: statistical_constant_pair)
  show ?thesis
    by (simp add: grade_generateEnhancedGrade 1 2 gradeBand_NaN zeroThresholds_def)
qed

end
